theory Spec2Isabelle
  imports Main "HOL-Library.Word"
begin

unbundle bit_operations_syntax

section \<open>Trident TGUI9440/96x0 accelerator: data model\<close>

text \<open>
  The embedding follows \<^verbatim>\<open>src/video/vid_tgui9440.c\<close>.  The C struct \<^verbatim>\<open>tgui_t\<close> and the
  fields of \<^verbatim>\<open>svga_t\<close> that the accelerator touches become one flat record.  Every field of
  the anonymous \<^verbatim>\<open>accel\<close> struct keeps its name behind the prefix \<^verbatim>\<open>accel_\<close>.

  \<^item> \<^verbatim>\<open>int16_t\<close>, \<^verbatim>\<open>uint16_t\<close>, \<^verbatim>\<open>uint32_t\<close>, \<^verbatim>\<open>uint8_t\<close> are words of that width; signed fields
    are read with \<open>sint\<close> and promoted with \<open>scast\<close>, unsigned ones with \<open>ucast\<close>.
  \<^item> the \<^verbatim>\<open>int\<close> fields that take part in address arithmetic (\<^verbatim>\<open>pitch\<close>, \<^verbatim>\<open>pat_x\<close>,
    \<^verbatim>\<open>pat_y\<close>, \<^verbatim>\<open>rowoffset\<close>) are 32-bit words in two's complement; the \<^verbatim>\<open>int\<close> fields that
    only hold small codes (\<^verbatim>\<open>type\<close>, \<^verbatim>\<open>command\<close>, \<^verbatim>\<open>bpp\<close>, \<^verbatim>\<open>use_src\<close>, \<^verbatim>\<open>write_blitter\<close>)
    are \<open>int\<close>.
  \<^item> arrays are functions from the index; \<^verbatim>\<open>svga->vram\<close> is byte addressed, and the
    \<^verbatim>\<open>uint16_t\<close>/\<^verbatim>\<open>uint32_t\<close> views \<^verbatim>\<open>vram_w\<close>/\<^verbatim>\<open>vram_l\<close> of it are little endian.
\<close>

record tgui_t =
  tgui_type :: int
  vram_mask :: "32 word"
  write_blitter :: int
  svga_vram :: "nat \<Rightarrow> 8 word"
  svga_changedvram :: "nat \<Rightarrow> 8 word"
  mon_changeframecount :: "8 word"
  svga_bpp :: int
  svga_rowoffset :: "32 word"
  svga_crtc :: "nat \<Rightarrow> 8 word"
  accel_src_x :: "16 word"
  accel_src_y :: "16 word"
  accel_src_x_clip :: "16 word"
  accel_src_y_clip :: "16 word"
  accel_dst_x :: "16 word"
  accel_dst_y :: "16 word"
  accel_dst_y_clip :: "16 word"
  accel_dst_x_clip :: "16 word"
  accel_size_x :: "16 word"
  accel_size_y :: "16 word"
  accel_sv_size_y :: "16 word"
  accel_patloc :: "16 word"
  accel_fg_col :: "32 word"
  accel_bg_col :: "32 word"
  accel_style :: "32 word"
  accel_ckey :: "32 word"
  accel_rop :: "8 word"
  accel_flags :: "32 word"
  accel_pattern :: "nat \<Rightarrow> 8 word"
  accel_pattern_32bpp :: "nat \<Rightarrow> 8 word"
  accel_command :: int
  accel_offset :: int
  accel_ger22 :: "16 word"
  accel_err :: "16 word"
  accel_top :: "16 word"
  accel_left :: "16 word"
  accel_bottom :: "16 word"
  accel_right :: "16 word"
  accel_x :: "16 word"
  accel_y :: "16 word"
  accel_cx :: "16 word"
  accel_cy :: "16 word"
  accel_dx :: "16 word"
  accel_dy :: "16 word"
  accel_src :: "32 word"
  accel_dst :: "32 word"
  accel_src_old :: "32 word"
  accel_dst_old :: "32 word"
  accel_pat_x :: "32 word"
  accel_pat_y :: "32 word"
  accel_use_src :: int
  accel_pitch :: "32 word"
  accel_bpp :: int
  accel_fill_pattern :: "nat \<Rightarrow> 32 word"
  accel_mono_pattern :: "nat \<Rightarrow> 32 word"
  accel_pattern_8 :: "nat \<Rightarrow> 32 word"
  accel_pattern_16 :: "nat \<Rightarrow> 32 word"
  accel_pattern_32 :: "nat \<Rightarrow> 32 word"
  accel_pattern_32_idx :: nat

subsection \<open>Enumerations\<close>

definition TGUI_9440 :: int where "TGUI_9440 = 1"
definition TGUI_9660 :: int where "TGUI_9660 = 2"

definition TGUI_BITBLT :: int where "TGUI_BITBLT = 1"
definition TGUI_SCANLINE :: int where "TGUI_SCANLINE = 3"
definition TGUI_BRESENHAMLINE :: int where "TGUI_BRESENHAMLINE = 4"
definition TGUI_SHORTVECTOR :: int where "TGUI_SHORTVECTOR = 5"
definition TGUI_FASTLINE :: int where "TGUI_FASTLINE = 6"

definition TGUI_SRCCPU :: "32 word" where "TGUI_SRCCPU = 0"
definition TGUI_SRCDISP :: "32 word" where "TGUI_SRCDISP = 0x04"
definition TGUI_PATMONO :: "32 word" where "TGUI_PATMONO = 0x20"
definition TGUI_SRCMONO :: "32 word" where "TGUI_SRCMONO = 0x40"
definition TGUI_TRANSENA :: "32 word" where "TGUI_TRANSENA = 0x1000"
definition TGUI_TRANSREV :: "32 word" where "TGUI_TRANSREV = 0x2000"
definition TGUI_SOLIDFILL :: "32 word" where "TGUI_SOLIDFILL = 0x4000"

section \<open>Address remapping\<close>

text \<open>
  \<^verbatim>\<open>dword_remap\<close>: \<^verbatim>\<open>((in_addr << 2) & 0x3fff0) | ((in_addr >> 14) & 0xc) | (in_addr & ~0x3fffc)\<close>.
\<close>

definition dword_remap :: "32 word \<Rightarrow> 32 word" where
  "dword_remap in_addr =
     ((push_bit 2 in_addr AND 0x3fff0) OR (drop_bit 14 in_addr AND 0xc))
       OR (in_addr AND NOT 0x3fffc)"

text \<open>
  The transform as the specification words it: bits 2--15 move up by two places, the field
  of bits 14--17 is laid onto bits 2--3 (bit 14 onto bit 2, confined to the two target
  bits), and the low two bits and the bits above 17 stay.  It is only compared with
  \<^const>\<open>dword_remap\<close>.
\<close>

definition dword_remap_as_worded :: "32 word \<Rightarrow> 32 word" where
  "dword_remap_as_worded a =
     push_bit 2 (a AND 0xfffc) OR (drop_bit 12 (a AND 0x3c000) AND 0xc)
       OR (a AND 3) OR (a AND NOT 0x3ffff)"

section \<open>Raster operation unit\<close>

text \<open>
  The macro \<^verbatim>\<open>ROPMIX(R, D, P, S, out)\<close> is a \<^verbatim>\<open>switch\<close> over all 256 codes.  Its cases are
  kept in source order, sixteen per definition; \<open>ROPMIX\<close> selects the group.  The final
  \<open>else 0\<close> is the \<^verbatim>\<open>out = 0\<close> with which \<^verbatim>\<open>MIX()\<close> starts.
\<close>

definition ROPMIX_0 :: "8 word \<Rightarrow> 32 word \<Rightarrow> 32 word \<Rightarrow> 32 word \<Rightarrow> 32 word" where
  "ROPMIX_0 R D P S =
     (if R = 0x00 then 0
      else if R = 0x01 then NOT (D OR (P OR S))
      else if R = 0x02 then D AND (NOT (P OR S))
      else if R = 0x03 then NOT (P OR S)
      else if R = 0x04 then S AND (NOT (D OR P))
      else if R = 0x05 then NOT (D OR P)
      else if R = 0x06 then NOT (P OR (NOT (D XOR S)))
      else if R = 0x07 then NOT (P OR (D AND S))
      else if R = 0x08 then S AND (D AND (NOT P))
      else if R = 0x09 then NOT (P OR (D XOR S))
      else if R = 0x0a then D AND (NOT P)
      else if R = 0x0b then NOT (P OR (S AND (NOT D)))
      else if R = 0x0c then S AND (NOT P)
      else if R = 0x0d then NOT (P OR (D AND (NOT S)))
      else if R = 0x0e then NOT (P OR (NOT (D OR S)))
      else if R = 0x0f then NOT P
      else 0)"

definition ROPMIX_1 :: "8 word \<Rightarrow> 32 word \<Rightarrow> 32 word \<Rightarrow> 32 word \<Rightarrow> 32 word" where
  "ROPMIX_1 R D P S =
     (if R = 0x10 then P AND (NOT (D OR S))
      else if R = 0x11 then NOT (D OR S)
      else if R = 0x12 then NOT (S OR (NOT (D XOR P)))
      else if R = 0x13 then NOT (S OR (D AND P))
      else if R = 0x14 then NOT (D OR (NOT (P XOR S)))
      else if R = 0x15 then NOT (D OR (P AND S))
      else if R = 0x16 then P XOR (S XOR (D AND (NOT (P AND S))))
      else if R = 0x17 then NOT (S XOR ((S XOR P) AND (D XOR S)))
      else if R = 0x18 then (S XOR P) AND (P XOR D)
      else if R = 0x19 then NOT (S XOR (D AND (NOT (P AND S))))
      else if R = 0x1a then P XOR (D OR (S AND P))
      else if R = 0x1b then NOT (S XOR (D AND (P XOR S)))
      else if R = 0x1c then P XOR (S OR (D AND P))
      else if R = 0x1d then NOT (D XOR (S AND (P XOR D)))
      else if R = 0x1e then P XOR (D OR S)
      else if R = 0x1f then NOT (P AND (D OR S))
      else 0)"

definition ROPMIX_2 :: "8 word \<Rightarrow> 32 word \<Rightarrow> 32 word \<Rightarrow> 32 word \<Rightarrow> 32 word" where
  "ROPMIX_2 R D P S =
     (if R = 0x20 then D AND (P AND (NOT S))
      else if R = 0x21 then NOT (S OR (D XOR P))
      else if R = 0x22 then D AND (NOT S)
      else if R = 0x23 then NOT (S OR (P AND (NOT D)))
      else if R = 0x24 then (S XOR P) AND (D XOR S)
      else if R = 0x25 then NOT (P XOR (D AND (NOT (S AND P))))
      else if R = 0x26 then S XOR (D OR (P AND S))
      else if R = 0x27 then S XOR (D OR (NOT (P XOR S)))
      else if R = 0x28 then D AND (P XOR S)
      else if R = 0x29 then NOT (P XOR (S XOR (D OR (P AND S))))
      else if R = 0x2a then D AND (NOT (P AND S))
      else if R = 0x2b then NOT (S XOR ((S XOR P) AND (P XOR D)))
      else if R = 0x2c then S XOR (P AND (D OR S))
      else if R = 0x2d then P XOR (S OR (NOT D))
      else if R = 0x2e then P XOR (S OR (D XOR P))
      else if R = 0x2f then NOT (P AND (S OR (NOT D)))
      else 0)"

definition ROPMIX_3 :: "8 word \<Rightarrow> 32 word \<Rightarrow> 32 word \<Rightarrow> 32 word \<Rightarrow> 32 word" where
  "ROPMIX_3 R D P S =
     (if R = 0x30 then P AND (NOT S)
      else if R = 0x31 then NOT (S OR (D AND (NOT P)))
      else if R = 0x32 then S XOR (D OR (P OR S))
      else if R = 0x33 then NOT S
      else if R = 0x34 then S XOR (P OR (D AND S))
      else if R = 0x35 then S XOR (P OR (NOT (D XOR S)))
      else if R = 0x36 then S XOR (D OR P)
      else if R = 0x37 then NOT (S AND (D OR P))
      else if R = 0x38 then P XOR (S AND (D OR P))
      else if R = 0x39 then S XOR (P OR (NOT D))
      else if R = 0x3a then S XOR (P OR (D XOR S))
      else if R = 0x3b then NOT (S AND (P OR (NOT D)))
      else if R = 0x3c then P XOR S
      else if R = 0x3d then S XOR (P OR (NOT (D OR S)))
      else if R = 0x3e then S XOR (P OR (D AND (NOT S)))
      else if R = 0x3f then NOT (P AND S)
      else 0)"

definition ROPMIX_4 :: "8 word \<Rightarrow> 32 word \<Rightarrow> 32 word \<Rightarrow> 32 word \<Rightarrow> 32 word" where
  "ROPMIX_4 R D P S =
     (if R = 0x40 then P AND (S AND (NOT D))
      else if R = 0x41 then NOT (D OR (P XOR S))
      else if R = 0x42 then (S XOR D) AND (P XOR D)
      else if R = 0x43 then NOT (S XOR (P AND (NOT (D AND S))))
      else if R = 0x44 then S AND (NOT D)
      else if R = 0x45 then NOT (D OR (P AND (NOT S)))
      else if R = 0x46 then D XOR (S OR (P AND D))
      else if R = 0x47 then NOT (P XOR (S AND (D XOR P)))
      else if R = 0x48 then S AND (D XOR P)
      else if R = 0x49 then NOT (P XOR (D XOR (S OR (P AND D))))
      else if R = 0x4a then D XOR (P AND (S OR D))
      else if R = 0x4b then P XOR (D OR (NOT S))
      else if R = 0x4c then S AND (NOT (D AND P))
      else if R = 0x4d then NOT (S XOR ((S XOR P) OR (D XOR S)))
      else if R = 0x4e then P XOR (D OR (S XOR P))
      else if R = 0x4f then NOT (P AND (D OR (NOT S)))
      else 0)"

definition ROPMIX_5 :: "8 word \<Rightarrow> 32 word \<Rightarrow> 32 word \<Rightarrow> 32 word \<Rightarrow> 32 word" where
  "ROPMIX_5 R D P S =
     (if R = 0x50 then P AND (NOT D)
      else if R = 0x51 then NOT (D OR (S AND (NOT P)))
      else if R = 0x52 then D XOR (P OR (S AND D))
      else if R = 0x53 then NOT (S XOR (P AND (D XOR S)))
      else if R = 0x54 then NOT (D OR (NOT (P OR S)))
      else if R = 0x55 then NOT D
      else if R = 0x56 then D XOR (P OR S)
      else if R = 0x57 then NOT (D AND (P OR S))
      else if R = 0x58 then P XOR (D AND (S OR P))
      else if R = 0x59 then D XOR (P OR (NOT S))
      else if R = 0x5a then D XOR P
      else if R = 0x5b then D XOR (P OR (NOT (S OR D)))
      else if R = 0x5c then D XOR (P OR (S XOR D))
      else if R = 0x5d then NOT (D AND (P OR (NOT S)))
      else if R = 0x5e then D XOR (P OR (S AND (NOT D)))
      else if R = 0x5f then NOT (D AND P)
      else 0)"

definition ROPMIX_6 :: "8 word \<Rightarrow> 32 word \<Rightarrow> 32 word \<Rightarrow> 32 word \<Rightarrow> 32 word" where
  "ROPMIX_6 R D P S =
     (if R = 0x60 then P AND (D XOR S)
      else if R = 0x61 then NOT (D XOR (S XOR (P OR (D AND S))))
      else if R = 0x62 then D XOR (S AND (P OR D))
      else if R = 0x63 then S XOR (D OR (NOT P))
      else if R = 0x64 then S XOR (D AND (P OR S))
      else if R = 0x65 then D XOR (S OR (NOT P))
      else if R = 0x66 then D XOR S
      else if R = 0x67 then S XOR (D OR (NOT (P OR S)))
      else if R = 0x68 then NOT (D XOR (S XOR (P OR (NOT (D OR S)))))
      else if R = 0x69 then NOT (P XOR (D XOR S))
      else if R = 0x6a then D XOR (P AND S)
      else if R = 0x6b then NOT (P XOR (S XOR (D AND (P OR S))))
      else if R = 0x6c then S XOR (D AND P)
      else if R = 0x6d then NOT (P XOR (D XOR (S AND (P OR D))))
      else if R = 0x6e then S XOR (D AND (P OR (NOT S)))
      else if R = 0x6f then NOT (P AND (NOT (D XOR S)))
      else 0)"

definition ROPMIX_7 :: "8 word \<Rightarrow> 32 word \<Rightarrow> 32 word \<Rightarrow> 32 word \<Rightarrow> 32 word" where
  "ROPMIX_7 R D P S =
     (if R = 0x70 then P AND (NOT (D AND S))
      else if R = 0x71 then NOT (S XOR ((S XOR D) AND (P XOR D)))
      else if R = 0x72 then S XOR (D OR (P XOR S))
      else if R = 0x73 then NOT (S AND (D OR (NOT P)))
      else if R = 0x74 then D XOR (S OR (P XOR D))
      else if R = 0x75 then NOT (D AND (S OR (NOT P)))
      else if R = 0x76 then S XOR (D OR (P AND (NOT S)))
      else if R = 0x77 then NOT (D AND S)
      else if R = 0x78 then P XOR (D AND S)
      else if R = 0x79 then NOT (D XOR (S XOR (P AND (D OR S))))
      else if R = 0x7a then D XOR (P AND (S OR (NOT D)))
      else if R = 0x7b then NOT (S AND (NOT (D XOR P)))
      else if R = 0x7c then S XOR (P AND (D OR (NOT S)))
      else if R = 0x7d then NOT (D AND (NOT (P XOR S)))
      else if R = 0x7e then (S XOR P) OR (D XOR S)
      else if R = 0x7f then NOT (D AND (P AND S))
      else 0)"

definition ROPMIX_8 :: "8 word \<Rightarrow> 32 word \<Rightarrow> 32 word \<Rightarrow> 32 word \<Rightarrow> 32 word" where
  "ROPMIX_8 R D P S =
     (if R = 0x80 then D AND (P AND S)
      else if R = 0x81 then NOT ((S XOR P) OR (D XOR S))
      else if R = 0x82 then D AND (NOT (P XOR S))
      else if R = 0x83 then NOT (S XOR (P AND (D OR (NOT S))))
      else if R = 0x84 then S AND (NOT (D XOR P))
      else if R = 0x85 then NOT (P XOR (D AND (S OR (NOT P))))
      else if R = 0x86 then D XOR (S XOR (P AND (D OR S)))
      else if R = 0x87 then NOT (P XOR (D AND S))
      else if R = 0x88 then D AND S
      else if R = 0x89 then NOT (S XOR (D OR (P AND (NOT S))))
      else if R = 0x8a then D AND (S OR (NOT P))
      else if R = 0x8b then NOT (D XOR (S OR (P XOR D)))
      else if R = 0x8c then S AND (D OR (NOT P))
      else if R = 0x8d then NOT (S XOR (D OR (P XOR S)))
      else if R = 0x8e then S XOR ((S XOR D) AND (P XOR D))
      else if R = 0x8f then NOT (P AND (NOT (D AND S)))
      else 0)"

definition ROPMIX_9 :: "8 word \<Rightarrow> 32 word \<Rightarrow> 32 word \<Rightarrow> 32 word \<Rightarrow> 32 word" where
  "ROPMIX_9 R D P S =
     (if R = 0x90 then P AND (NOT (D XOR S))
      else if R = 0x91 then NOT (S XOR (D AND (P OR (NOT S))))
      else if R = 0x92 then D XOR (P XOR (S AND (D OR P)))
      else if R = 0x93 then NOT (S XOR (P AND D))
      else if R = 0x94 then P XOR (S XOR (D AND (P OR S)))
      else if R = 0x95 then NOT (D XOR (P AND S))
      else if R = 0x96 then D XOR (P XOR S)
      else if R = 0x97 then P XOR (S XOR (D OR (NOT (P OR S))))
      else if R = 0x98 then NOT (S XOR (D OR (NOT (P OR S))))
      else if R = 0x99 then NOT (D XOR S)
      else if R = 0x9a then D XOR (P AND (NOT S))
      else if R = 0x9b then NOT (S XOR (D AND (P OR S)))
      else if R = 0x9c then S XOR (P AND (NOT D))
      else if R = 0x9d then NOT (D XOR (S AND (P OR D)))
      else if R = 0x9e then D XOR (S XOR (P OR (D AND S)))
      else if R = 0x9f then NOT (P AND (D XOR S))
      else 0)"

definition ROPMIX_a :: "8 word \<Rightarrow> 32 word \<Rightarrow> 32 word \<Rightarrow> 32 word \<Rightarrow> 32 word" where
  "ROPMIX_a R D P S =
     (if R = 0xa0 then D AND P
      else if R = 0xa1 then NOT (P XOR (D OR (S AND (NOT P))))
      else if R = 0xa2 then D AND (P OR (NOT S))
      else if R = 0xa3 then NOT (D XOR (P OR (S XOR D)))
      else if R = 0xa4 then NOT (P XOR (D OR (NOT (S OR P))))
      else if R = 0xa5 then NOT (P XOR D)
      else if R = 0xa6 then D XOR (S AND (NOT P))
      else if R = 0xa7 then NOT (P XOR (D AND (S OR P)))
      else if R = 0xa8 then D AND (P OR S)
      else if R = 0xa9 then NOT (D XOR (P OR S))
      else if R = 0xaa then D
      else if R = 0xab then D OR (NOT (P OR S))
      else if R = 0xac then S XOR (P AND (D XOR S))
      else if R = 0xad then NOT (D XOR (P OR (S AND D)))
      else if R = 0xae then D OR (S AND (NOT P))
      else if R = 0xaf then D OR (NOT P)
      else 0)"

definition ROPMIX_b :: "8 word \<Rightarrow> 32 word \<Rightarrow> 32 word \<Rightarrow> 32 word \<Rightarrow> 32 word" where
  "ROPMIX_b R D P S =
     (if R = 0xb0 then P AND (D OR (NOT S))
      else if R = 0xb1 then NOT (P XOR (D OR (S XOR P)))
      else if R = 0xb2 then S XOR ((S XOR P) OR (D XOR S))
      else if R = 0xb3 then NOT (S AND (NOT (D AND P)))
      else if R = 0xb4 then P XOR (S AND (NOT D))
      else if R = 0xb5 then NOT (D XOR (P AND (S OR D)))
      else if R = 0xb6 then D XOR (P XOR (S OR (D AND P)))
      else if R = 0xb7 then NOT (S AND (D XOR P))
      else if R = 0xb8 then P XOR (S AND (D XOR P))
      else if R = 0xb9 then NOT (D XOR (S OR (P AND D)))
      else if R = 0xba then D OR (P AND (NOT S))
      else if R = 0xbb then D OR (NOT S)
      else if R = 0xbc then S XOR (P AND (NOT (D AND S)))
      else if R = 0xbd then NOT ((S XOR D) AND (P XOR D))
      else if R = 0xbe then D OR (P XOR S)
      else if R = 0xbf then D OR (NOT (P AND S))
      else 0)"

definition ROPMIX_c :: "8 word \<Rightarrow> 32 word \<Rightarrow> 32 word \<Rightarrow> 32 word \<Rightarrow> 32 word" where
  "ROPMIX_c R D P S =
     (if R = 0xc0 then P AND S
      else if R = 0xc1 then NOT (S XOR (P OR (D AND (NOT S))))
      else if R = 0xc2 then NOT (S XOR (P OR (NOT (D OR S))))
      else if R = 0xc3 then NOT (P XOR S)
      else if R = 0xc4 then S AND (P OR (NOT D))
      else if R = 0xc5 then NOT (S XOR (P OR (D XOR S)))
      else if R = 0xc6 then S XOR (D AND (NOT P))
      else if R = 0xc7 then NOT (P XOR (S AND (D OR P)))
      else if R = 0xc8 then S AND (D OR P)
      else if R = 0xc9 then NOT (S XOR (P OR D))
      else if R = 0xca then D XOR (P AND (S XOR D))
      else if R = 0xcb then NOT (S XOR (P OR (D AND S)))
      else if R = 0xcc then S
      else if R = 0xcd then S OR (NOT (D OR P))
      else if R = 0xce then S OR (D AND (NOT P))
      else if R = 0xcf then S OR (NOT P)
      else 0)"

definition ROPMIX_d :: "8 word \<Rightarrow> 32 word \<Rightarrow> 32 word \<Rightarrow> 32 word \<Rightarrow> 32 word" where
  "ROPMIX_d R D P S =
     (if R = 0xd0 then P AND (S OR (NOT D))
      else if R = 0xd1 then NOT (P XOR (S OR (D XOR P)))
      else if R = 0xd2 then P XOR (D AND (NOT S))
      else if R = 0xd3 then NOT (S XOR (P AND (D OR S)))
      else if R = 0xd4 then S XOR ((S XOR P) AND (P XOR D))
      else if R = 0xd5 then NOT (D AND (NOT (P AND S)))
      else if R = 0xd6 then P XOR (S XOR (D OR (P AND S)))
      else if R = 0xd7 then NOT (D AND (P XOR S))
      else if R = 0xd8 then P XOR (D AND (S XOR P))
      else if R = 0xd9 then NOT (S XOR (D OR (P AND S)))
      else if R = 0xda then D XOR (P AND (NOT (S AND D)))
      else if R = 0xdb then NOT ((S XOR P) AND (D XOR S))
      else if R = 0xdc then S OR (P AND (NOT D))
      else if R = 0xdd then S OR (NOT D)
      else if R = 0xde then S OR (D XOR P)
      else if R = 0xdf then S OR (NOT (D AND P))
      else 0)"

definition ROPMIX_e :: "8 word \<Rightarrow> 32 word \<Rightarrow> 32 word \<Rightarrow> 32 word \<Rightarrow> 32 word" where
  "ROPMIX_e R D P S =
     (if R = 0xe0 then P AND (D OR S)
      else if R = 0xe1 then NOT (P XOR (D OR S))
      else if R = 0xe2 then D XOR (S AND (P XOR D))
      else if R = 0xe3 then NOT (P XOR (S OR (D AND P)))
      else if R = 0xe4 then S XOR (D AND (P XOR S))
      else if R = 0xe5 then NOT (P XOR (D OR (S AND P)))
      else if R = 0xe6 then S XOR (D AND (NOT (P AND S)))
      else if R = 0xe7 then NOT ((S XOR P) AND (P XOR D))
      else if R = 0xe8 then S XOR ((S XOR P) AND (D XOR S))
      else if R = 0xe9 then NOT (D XOR (S XOR (P AND (NOT (D AND S)))))
      else if R = 0xea then D OR (P AND S)
      else if R = 0xeb then D OR (NOT (P XOR S))
      else if R = 0xec then S OR (D AND P)
      else if R = 0xed then S OR (NOT (D XOR P))
      else if R = 0xee then D OR S
      else if R = 0xef then S OR (D OR (NOT P))
      else 0)"

definition ROPMIX_f :: "8 word \<Rightarrow> 32 word \<Rightarrow> 32 word \<Rightarrow> 32 word \<Rightarrow> 32 word" where
  "ROPMIX_f R D P S =
     (if R = 0xf0 then P
      else if R = 0xf1 then P OR (NOT (D OR S))
      else if R = 0xf2 then P OR (D AND (NOT S))
      else if R = 0xf3 then P OR (NOT S)
      else if R = 0xf4 then P OR (S AND (NOT D))
      else if R = 0xf5 then P OR (NOT D)
      else if R = 0xf6 then P OR (D XOR S)
      else if R = 0xf7 then P OR (NOT (D AND S))
      else if R = 0xf8 then P OR (D AND S)
      else if R = 0xf9 then P OR (NOT (D XOR S))
      else if R = 0xfa then D OR P
      else if R = 0xfb then D OR (P OR (NOT S))
      else if R = 0xfc then P OR S
      else if R = 0xfd then P OR (S OR (NOT D))
      else if R = 0xfe then D OR (P OR S)
      else if R = 0xff then NOT 0
      else 0)"

definition ROPMIX :: "8 word \<Rightarrow> 32 word \<Rightarrow> 32 word \<Rightarrow> 32 word \<Rightarrow> 32 word" where
  "ROPMIX R D P S =
     (if R < 0x10 then ROPMIX_0 R D P S
      else if R < 0x20 then ROPMIX_1 R D P S
      else if R < 0x30 then ROPMIX_2 R D P S
      else if R < 0x40 then ROPMIX_3 R D P S
      else if R < 0x50 then ROPMIX_4 R D P S
      else if R < 0x60 then ROPMIX_5 R D P S
      else if R < 0x70 then ROPMIX_6 R D P S
      else if R < 0x80 then ROPMIX_7 R D P S
      else if R < 0x90 then ROPMIX_8 R D P S
      else if R < 0xa0 then ROPMIX_9 R D P S
      else if R < 0xb0 then ROPMIX_a R D P S
      else if R < 0xc0 then ROPMIX_b R D P S
      else if R < 0xd0 then ROPMIX_c R D P S
      else if R < 0xe0 then ROPMIX_d R D P S
      else if R < 0xf0 then ROPMIX_e R D P S
      else ROPMIX_f R D P S)"
definition MIX :: "tgui_t \<Rightarrow> 32 word \<Rightarrow> 32 word \<Rightarrow> 32 word \<Rightarrow> 32 word" where
  "MIX s dst_dat pat_dat src_dat = ROPMIX (accel_rop s) dst_dat pat_dat src_dat"

section \<open>Framebuffer access\<close>

text \<open>
  \<^verbatim>\<open>svga->vram\<close> is a byte array; \<^verbatim>\<open>vram_w\<close> and \<^verbatim>\<open>vram_l\<close> are the same bytes seen as
  \<^verbatim>\<open>uint16_t\<close> and \<^verbatim>\<open>uint32_t\<close> (little endian).  The index is a \<open>nat\<close>.
\<close>

definition vram_rd8 :: "(nat \<Rightarrow> 8 word) \<Rightarrow> nat \<Rightarrow> 32 word" where
  "vram_rd8 v i = ucast (v i)"

definition vram_rd16 :: "(nat \<Rightarrow> 8 word) \<Rightarrow> nat \<Rightarrow> 32 word" where
  "vram_rd16 v i = ucast (v (2 * i)) OR push_bit 8 (ucast (v (2 * i + 1)))"

definition vram_rd32 :: "(nat \<Rightarrow> 8 word) \<Rightarrow> nat \<Rightarrow> 32 word" where
  "vram_rd32 v i =
     ucast (v (4 * i)) OR push_bit 8 (ucast (v (4 * i + 1)))
       OR push_bit 16 (ucast (v (4 * i + 2))) OR push_bit 24 (ucast (v (4 * i + 3)))"

definition vram_wr8 :: "(nat \<Rightarrow> 8 word) \<Rightarrow> nat \<Rightarrow> 32 word \<Rightarrow> (nat \<Rightarrow> 8 word)" where
  "vram_wr8 v i dat = v(i := ucast dat)"

definition vram_wr16 :: "(nat \<Rightarrow> 8 word) \<Rightarrow> nat \<Rightarrow> 32 word \<Rightarrow> (nat \<Rightarrow> 8 word)" where
  "vram_wr16 v i dat = v(2 * i := ucast dat, 2 * i + 1 := ucast (drop_bit 8 dat))"

definition vram_wr32 :: "(nat \<Rightarrow> 8 word) \<Rightarrow> nat \<Rightarrow> 32 word \<Rightarrow> (nat \<Rightarrow> 8 word)" where
  "vram_wr32 v i dat =
     v(4 * i := ucast dat, 4 * i + 1 := ucast (drop_bit 8 dat),
       4 * i + 2 := ucast (drop_bit 16 dat), 4 * i + 3 := ucast (drop_bit 24 dat))"

text \<open>The macro \<^verbatim>\<open>READ(addr, dat)\<close>; the result is the value assigned to \<^verbatim>\<open>dat\<close>.\<close>

definition READ :: "tgui_t \<Rightarrow> 32 word \<Rightarrow> 32 word" where
  "READ s addr =
     (if accel_bpp s = 0 then vram_rd8 (svga_vram s) (unat (addr AND vram_mask s))
      else if accel_bpp s = 1 then
        vram_rd16 (svga_vram s) (unat (addr AND drop_bit 1 (vram_mask s)))
      else vram_rd32 (svga_vram s) (unat (addr AND drop_bit 2 (vram_mask s))))"

text \<open>The macro \<^verbatim>\<open>WRITE(addr, dat)\<close>: the store and the mark in \<^verbatim>\<open>changedvram\<close>.\<close>

definition WRITE :: "tgui_t \<Rightarrow> 32 word \<Rightarrow> 32 word \<Rightarrow> tgui_t" where
  "WRITE s addr dat =
     (if accel_bpp s = 0 then
        s\<lparr>svga_vram := vram_wr8 (svga_vram s) (unat (addr AND vram_mask s)) dat,
          svga_changedvram := (svga_changedvram s)
            (unat (drop_bit 12 (addr AND vram_mask s)) := mon_changeframecount s)\<rparr>
      else if accel_bpp s = 1 then
        s\<lparr>svga_vram := vram_wr16 (svga_vram s) (unat (addr AND drop_bit 1 (vram_mask s))) dat,
          svga_changedvram := (svga_changedvram s)
            (unat (drop_bit 11 (addr AND drop_bit 1 (vram_mask s))) := mon_changeframecount s)\<rparr>
      else
        s\<lparr>svga_vram := vram_wr32 (svga_vram s) (unat (addr AND drop_bit 2 (vram_mask s))) dat,
          svga_changedvram := (svga_changedvram s)
            (unat (drop_bit 10 (addr AND drop_bit 2 (vram_mask s))) := mon_changeframecount s)\<rparr>)"

section \<open>The command engine \<^verbatim>\<open>tgui_accel_command\<close>\<close>

subsection \<open>Locals computed on entry\<close>

text \<open>
  \<^verbatim>\<open>xdir\<close>, \<^verbatim>\<open>ydir\<close>, \<^verbatim>\<open>trans_col\<close> and \<^verbatim>\<open>pattern_data\<close> are local variables fixed before the
  \<^verbatim>\<open>switch\<close> on the command; the loop bodies receive them in this record.  \<^verbatim>\<open>xdir\<close> and
  \<^verbatim>\<open>ydir\<close> are \<^verbatim>\<open>int\<close> values \<open>1\<close> or \<open>-1\<close>, kept as 32-bit words and narrowed with \<open>ucast\<close>
  where they are added to an \<^verbatim>\<open>int16_t\<close>.
\<close>

record locals =
  xdir :: "32 word"
  ydir :: "32 word"
  trans_col :: "32 word"
  pattern_data :: "nat \<Rightarrow> 32 word"

definition xdir_of :: "tgui_t \<Rightarrow> 32 word" where
  "xdir_of s = (if accel_flags s AND 0x200 \<noteq> 0 then - 1 else 1)"

definition ydir_of :: "tgui_t \<Rightarrow> 32 word" where
  "ydir_of s = (if accel_flags s AND 0x100 \<noteq> 0 then - 1 else 1)"

definition trans_col_of :: "tgui_t \<Rightarrow> 32 word" where
  "trans_col_of s =
     (let t = (if accel_flags s AND TGUI_TRANSREV \<noteq> 0 then accel_fg_col s else accel_bg_col s)
      in if accel_bpp s = 0 then t AND 0xff
         else if accel_bpp s = 1 then t AND 0xffff
         else t)"

subsection \<open>Pattern cache\<close>

text \<open>
  The three branches that fill one of the 64-entry tables with two nested \<^verbatim>\<open>for\<close> loops
  (\<^verbatim>\<open>y\<close> outer, \<^verbatim>\<open>x\<close> inner, both \<open>0..7\<close>) and point \<^verbatim>\<open>pattern_data\<close> at it.
\<close>

definition for_yx :: "(nat \<Rightarrow> nat \<Rightarrow> 'a \<Rightarrow> 'a) \<Rightarrow> 'a \<Rightarrow> 'a" where
  "for_yx f a = fold (\<lambda>y. fold (\<lambda>x. f y x) [0..<8]) [0..<8] a"

definition fill_pattern_table :: "tgui_t \<Rightarrow> nat \<Rightarrow> 32 word" where
  "fill_pattern_table s =
     for_yx (\<lambda>y x a. a(y * 8 + (7 - x) := accel_fg_col s)) (accel_fill_pattern s)"

definition mono_pattern_table :: "tgui_t \<Rightarrow> nat \<Rightarrow> 32 word" where
  "mono_pattern_table s =
     for_yx (\<lambda>y x a. a(y * 8 + (7 - x) :=
               (if ucast (accel_pattern s y) AND (push_bit x 1 :: 32 word) \<noteq> 0
                then accel_fg_col s else accel_bg_col s)))
       (accel_mono_pattern s)"

definition pattern_8_table :: "tgui_t \<Rightarrow> nat \<Rightarrow> 32 word" where
  "pattern_8_table s =
     for_yx (\<lambda>y x a. a(y * 8 + x := ucast (accel_pattern s (x + y * 8)))) (accel_pattern_8 s)"

definition pattern_16_table :: "tgui_t \<Rightarrow> nat \<Rightarrow> 32 word" where
  "pattern_16_table s =
     for_yx (\<lambda>y x a. a(y * 8 + x :=
               ucast (accel_pattern s (x * 2 + y * 16))
                 OR push_bit 8 (ucast (accel_pattern s (x * 2 + y * 16 + 1)))))
       (accel_pattern_16 s)"

definition pattern_32_table :: "tgui_t \<Rightarrow> nat \<Rightarrow> 32 word" where
  "pattern_32_table s =
     for_yx (\<lambda>y x a. a(y * 8 + x :=
               ucast (accel_pattern_32bpp s (x * 4 + y * 32))
                 OR push_bit 8 (ucast (accel_pattern_32bpp s (x * 4 + y * 32 + 1)))
                 OR push_bit 16 (ucast (accel_pattern_32bpp s (x * 4 + y * 32 + 2)))
                 OR push_bit 24 (ucast (accel_pattern_32bpp s (x * 4 + y * 32 + 3)))))
       (accel_pattern_32 s)"

text \<open>The state with the table stored, and the table \<^verbatim>\<open>pattern_data\<close> points to.\<close>

definition pattern_setup :: "tgui_t \<Rightarrow> tgui_t \<times> (nat \<Rightarrow> 32 word)" where
  "pattern_setup s =
     (if accel_flags s AND TGUI_SOLIDFILL \<noteq> 0 then
        (s\<lparr>accel_fill_pattern := fill_pattern_table s\<rparr>, fill_pattern_table s)
      else if accel_flags s AND TGUI_PATMONO \<noteq> 0 then
        (s\<lparr>accel_mono_pattern := mono_pattern_table s\<rparr>, mono_pattern_table s)
      else if accel_bpp s = 0 then
        (s\<lparr>accel_pattern_8 := pattern_8_table s\<rparr>, pattern_8_table s)
      else if accel_bpp s = 1 then
        (s\<lparr>accel_pattern_16 := pattern_16_table s\<rparr>, pattern_16_table s)
      else
        (s\<lparr>accel_pattern_32 := pattern_32_table s\<rparr>, pattern_32_table s))"

text \<open>\<^verbatim>\<open>tgui->accel.pitch = svga->rowoffset\<close>, then the \<^verbatim>\<open>switch (svga->bpp)\<close>.\<close>

definition pitch_setup :: "tgui_t \<Rightarrow> tgui_t" where
  "pitch_setup s =
     s\<lparr>accel_pitch :=
        (if svga_bpp s = 8 \<or> svga_bpp s = 24 then push_bit 3 (svga_rowoffset s)
         else if svga_bpp s = 15 \<or> svga_bpp s = 16 then push_bit 2 (svga_rowoffset s)
         else if svga_bpp s = 32 then push_bit 1 (svga_rowoffset s)
         else svga_rowoffset s)\<rparr>"

text \<open>
  \<^verbatim>\<open>pat_dat = pattern_data[((pat_y & 7) * 8) + (pat_x & 7)]\<close> followed by the mask for the
  pixel width.
\<close>

definition pat_dat_of :: "locals \<Rightarrow> tgui_t \<Rightarrow> 32 word" where
  "pat_dat_of L s =
     (let p = pattern_data L (unat ((accel_pat_y s AND 7) * 8 + (accel_pat_x s AND 7)))
      in if accel_bpp s = 0 then p AND 0xff
         else if accel_bpp s = 1 then p AND 0xffff
         else p)"

subsection \<open>Clip tests\<close>

text \<open>The test that guards the draw in the two CPU-sourced block transfers.\<close>

definition clip_ok_blt :: "tgui_t \<Rightarrow> bool" where
  "clip_ok_blt s =
     (tgui_type s = TGUI_9440 \<or>
      (tgui_type s \<ge> TGUI_9660 \<and> sint (accel_dx s) \<ge> sint (accel_left s)
       \<and> sint (accel_dx s) \<le> sint (accel_right s)
       \<and> sint (accel_dy s) \<ge> sint (accel_top s)
       \<and> sint (accel_dy s) \<le> sint (accel_bottom s)))"

text \<open>The test in the three line commands, with \<^verbatim>\<open>dx & 0xfff\<close> and \<^verbatim>\<open>dy & 0xfff\<close>.\<close>

definition clip_ok_line :: "tgui_t \<Rightarrow> bool" where
  "clip_ok_line s =
     (tgui_type s = TGUI_9440 \<or>
      (tgui_type s \<ge> TGUI_9660 \<and> sint (accel_dx s AND 0xfff) \<ge> sint (accel_left s)
       \<and> sint (accel_dx s AND 0xfff) \<le> sint (accel_right s)
       \<and> sint (accel_dy s AND 0xfff) \<ge> sint (accel_top s)
       \<and> sint (accel_dy s AND 0xfff) \<le> sint (accel_bottom s)))"

text \<open>The clip box as every command sets it when \<^verbatim>\<open>count == -1\<close>.\<close>

definition clip_setup :: "tgui_t \<Rightarrow> tgui_t" where
  "clip_setup s =
     (let l = accel_src_x_clip s AND 0xfff; r = accel_dst_x_clip s AND 0xfff;
          s1 = s\<lparr>accel_left := l, accel_right := r,
                 accel_top := accel_src_y_clip s AND 0xfff,
                 accel_bottom := accel_dst_y_clip s AND 0xfff\<rparr>
      in if accel_bpp s = 1 then s1\<lparr>accel_left := drop_bit 1 l, accel_right := drop_bit 1 r\<rparr>
         else if accel_bpp s = 3 then s1\<lparr>accel_left := drop_bit 2 l, accel_right := drop_bit 2 r\<rparr>
         else s1)"

subsection \<open>Loops\<close>

text \<open>
  Every loop of the function is \<^verbatim>\<open>while (count) { body; count--; }\<close> or
  \<^verbatim>\<open>while (count--) { body }\<close> with a body that does not mention \<^verbatim>\<open>count\<close>, and the
  value of \<^verbatim>\<open>count\<close> after the loop is never used: both are \<open>accel_loop\<close>.  A body returns
  whether it left the loop (\<^verbatim>\<open>return\<close> or \<^verbatim>\<open>break\<close>), the new state, and the new values of
  the locals \<^verbatim>\<open>count\<close> and \<^verbatim>\<open>cpu_dat\<close>.  \<^verbatim>\<open>count\<close> is an \<open>int\<close>: a start invocation
  passes \<open>-1\<close> and the loop then only ends through \<^verbatim>\<open>return\<close>/\<^verbatim>\<open>break\<close>; a loop that
  never does so has no result (\<open>None\<close>).
\<close>

type_synonym loop_body = "tgui_t \<Rightarrow> int \<Rightarrow> 32 word \<Rightarrow> bool \<times> tgui_t \<times> int \<times> 32 word"

partial_function (option) accel_loop :: "loop_body \<Rightarrow> tgui_t \<Rightarrow> int \<Rightarrow> 32 word \<Rightarrow> tgui_t option" where
  "accel_loop body s count cpu_dat =
     (if count = 0 then Some s
      else (case body s count cpu_dat of
              (ret, s', count', cpu_dat') \<Rightarrow>
                if ret then Some s' else accel_loop body s' (count' - 1) cpu_dat'))"

declare accel_loop.simps [code]

subsection \<open>Block transfer\<close>

text \<open>The block under \<^verbatim>\<open>case TGUI_BITBLT: if (count == -1)\<close>.\<close>

definition bitblt_start :: "tgui_t \<Rightarrow> tgui_t" where
  "bitblt_start s =
     (let so = scast (accel_src_x s) + scast (accel_src_y s) * accel_pitch s;
          d = scast (accel_dst_x s) + scast (accel_dst_y s) * accel_pitch s
      in clip_setup
           (s\<lparr>accel_src_old := so, accel_src := so, accel_dst_old := d, accel_dst := d,
              accel_pat_x := scast (accel_dst_x s), accel_pat_y := scast (accel_dst_y s),
              accel_dx := accel_dst_x s AND 0xfff, accel_dy := accel_dst_y s AND 0xfff\<rparr>))"

text \<open>
  The end of a pixel in the two CPU-sourced loops, first part: the pointers step by
  \<^verbatim>\<open>xdir\<close> (and \<^verbatim>\<open>dx\<close> on the 96x0), then \<^verbatim>\<open>x++\<close>.
\<close>

definition blt_cpu_step_x :: "locals \<Rightarrow> tgui_t \<Rightarrow> tgui_t" where
  "blt_cpu_step_x L s =
     (let s1 = s\<lparr>accel_src := accel_src s + xdir L, accel_dst := accel_dst s + xdir L,
                 accel_pat_x := accel_pat_x s + xdir L\<rparr>;
          s2 = (if tgui_type s1 \<ge> TGUI_9660 then s1\<lparr>accel_dx := accel_dx s1 + ucast (xdir L)\<rparr>
                else s1)
      in s2\<lparr>accel_x := accel_x s2 + 1\<rparr>)"

text \<open>
  Second part, the block under \<^verbatim>\<open>if (tgui->accel.x > tgui->accel.size_x)\<close> up to and
  including \<^verbatim>\<open>y++\<close>.
\<close>

definition blt_cpu_next_row :: "locals \<Rightarrow> tgui_t \<Rightarrow> tgui_t" where
  "blt_cpu_next_row L s3 =
     (let s4 = s3\<lparr>accel_x := 0, accel_pat_x := scast (accel_dst_x s3),
                  accel_pat_y := accel_pat_y s3 + ydir L\<rparr>;
          s5 = (if tgui_type s4 \<ge> TGUI_9660
                then s4\<lparr>accel_dx := accel_dst_x s4 AND 0xfff,
                        accel_dy := accel_dy s4 + ucast (ydir L)\<rparr>
                else s4);
          so = accel_src_old s5 + ydir L * accel_pitch s5;
          d = accel_dst_old s5 + ydir L * accel_pitch s5
      in s5\<lparr>accel_src_old := so, accel_dst_old := d, accel_src := so,
            accel_dst := d, accel_y := accel_y s5 + 1\<rparr>)"

text \<open>
  Both parts with the two exits of the row wrap; the result says whether the function
  returned.
\<close>

definition blt_cpu_advance :: "locals \<Rightarrow> tgui_t \<Rightarrow> bool \<times> tgui_t" where
  "blt_cpu_advance L s =
     (let s3 = blt_cpu_step_x L s
      in if sint (accel_x s3) > sint (accel_size_x s3) then
           (let s6 = blt_cpu_next_row L s3
            in if sint (accel_y s6) > sint (accel_size_y s6) then
                 (True, if svga_crtc s6 0x21 AND 0x20 \<noteq> 0 then s6\<lparr>write_blitter := 0\<rparr> else s6)
               else if accel_use_src s6 \<noteq> 0 then (True, s6)
               else (False, s6))
         else (False, s3))"

text \<open>
  The sequence \<^verbatim>\<open>READ(dst, dst_dat); pat_dat = \<dots>; MIX(); WRITE(dst, out)\<close> that every
  block-transfer and scanline loop runs for a pixel it draws.
\<close>

definition blt_pixel :: "locals \<Rightarrow> tgui_t \<Rightarrow> 32 word \<Rightarrow> tgui_t" where
  "blt_pixel L s src_dat =
     (let dst_dat = READ s (accel_dst s);
          pat_dat = pat_dat_of L s
      in WRITE s (accel_dst s) (MIX s dst_dat pat_dat src_dat))"

text \<open>
  How the loop under \<^verbatim>\<open>case TGUI_SRCCPU\<close> takes a pixel from \<^verbatim>\<open>cpu_dat\<close>: the source
  pixel, the shifted \<^verbatim>\<open>cpu_dat\<close>, and \<^verbatim>\<open>count\<close> after the extra decrement.
\<close>

definition cpu_fetch :: "tgui_t \<Rightarrow> int \<Rightarrow> 32 word \<Rightarrow> 32 word \<times> 32 word \<times> int" where
  "cpu_fetch s count cpu_dat =
     (if accel_bpp s = 0 then (drop_bit 24 cpu_dat, push_bit 8 cpu_dat, count)
      else if accel_bpp s = 1 then
        (drop_bit 24 cpu_dat OR (drop_bit 8 cpu_dat AND 0xff00), push_bit 16 cpu_dat, count - 1)
      else
        (drop_bit 24 cpu_dat OR (drop_bit 8 cpu_dat AND 0x0000ff00)
           OR (push_bit 8 cpu_dat AND 0x00ff0000),
         push_bit 16 cpu_dat, count - 3))"

text \<open>The condition that guards \<^verbatim>\<open>MIX(); WRITE()\<close> in that loop.\<close>

definition cpu_write_cond :: "locals \<Rightarrow> tgui_t \<Rightarrow> bool" where
  "cpu_write_cond L s =
     ((accel_flags s AND (TGUI_PATMONO OR TGUI_TRANSENA) = (TGUI_TRANSENA OR TGUI_PATMONO)
         \<and> pat_dat_of L s \<noteq> trans_col L)
      \<or> accel_flags s AND TGUI_PATMONO = 0
      \<or> accel_flags s AND (TGUI_PATMONO OR TGUI_TRANSENA) = TGUI_PATMONO
      \<or> accel_ger22 s AND 0x200 \<noteq> 0)"

text \<open>
  The condition \<^verbatim>\<open>!(flags & TGUI_TRANSENA) || (src_dat != trans_col)\<close> of the other three
  loops.
\<close>

definition trans_write_cond :: "locals \<Rightarrow> tgui_t \<Rightarrow> 32 word \<Rightarrow> bool" where
  "trans_write_cond L s src_dat =
     (accel_flags s AND TGUI_TRANSENA = 0 \<or> src_dat \<noteq> trans_col L)"

text \<open>Body of the loop under \<^verbatim>\<open>case TGUI_SRCCPU\<close>.\<close>

definition bitblt_cpu_body :: "locals \<Rightarrow> loop_body" where
  "bitblt_cpu_body L s count cpu_dat =
     (if clip_ok_blt s then
        (let (src_dat, cpu1, count1) = cpu_fetch s count cpu_dat;
             s1 = (if cpu_write_cond L s then blt_pixel L s src_dat else s);
             (ret, s2) = blt_cpu_advance L s1
         in (ret, s2, count1, cpu1))
      else
        (let (ret, s2) = blt_cpu_advance L s
         in (ret, s2, count, cpu_dat)))"

text \<open>
  The source pixel of the loop under \<^verbatim>\<open>case TGUI_SRCMONO | TGUI_SRCCPU\<close>: the top bit of
  \<^verbatim>\<open>cpu_dat\<close> selects the foreground or the background colour.
\<close>

definition mono_src_dat :: "tgui_t \<Rightarrow> 32 word \<Rightarrow> 32 word" where
  "mono_src_dat s cpu_dat =
     (let c = (if drop_bit 31 cpu_dat \<noteq> 0 then accel_fg_col s else accel_bg_col s)
      in if accel_bpp s = 0 then c AND 0xff
         else if accel_bpp s = 1 then c AND 0xffff
         else c)"

text \<open>Body of the loop under \<^verbatim>\<open>case TGUI_SRCMONO | TGUI_SRCCPU\<close>.\<close>

definition bitblt_mono_body :: "locals \<Rightarrow> loop_body" where
  "bitblt_mono_body L s count cpu_dat =
     (let s1 = (if clip_ok_blt s then
                  (let src_dat = mono_src_dat s cpu_dat
                   in if trans_write_cond L s src_dat then blt_pixel L s src_dat else s)
                else s);
          (ret, s2) = blt_cpu_advance L s1
      in (ret, s2, count, push_bit 1 cpu_dat))"

text \<open>
  The end of a pixel in the loop under \<^verbatim>\<open>default\<close> (source from the display); the
  result says whether the function returned.
\<close>

definition blt_disp_advance :: "locals \<Rightarrow> tgui_t \<Rightarrow> bool \<times> tgui_t" where
  "blt_disp_advance L s =
     (let s2 = s\<lparr>accel_src := accel_src s + xdir L, accel_dst := accel_dst s + xdir L,
                accel_pat_x := accel_pat_x s + xdir L\<rparr>;
          s3 = s2\<lparr>accel_x := accel_x s2 + 1\<rparr>
      in if sint (accel_x s3) > sint (accel_size_x s3) then
           (let so = accel_src_old s3 + ydir L * accel_pitch s3;
                d = accel_dst_old s3 + ydir L * accel_pitch s3;
                s4 = s3\<lparr>accel_x := 0, accel_y := accel_y s3 + 1,
                        accel_pat_x := scast (accel_dst_x s3),
                        accel_pat_y := accel_pat_y s3 + ydir L,
                        accel_src_old := so, accel_src := so,
                        accel_dst_old := d, accel_dst := d\<rparr>
            in (sint (accel_y s4) > sint (accel_size_y s4), s4))
         else (False, s3))"

text \<open>Body of the loop under \<^verbatim>\<open>default\<close>: no clip test.\<close>

definition bitblt_disp_body :: "locals \<Rightarrow> loop_body" where
  "bitblt_disp_body L s count cpu_dat =
     (let src_dat = READ s (accel_src s);
          s1 = (if trans_write_cond L s src_dat then blt_pixel L s src_dat else s);
          (ret, s2) = blt_disp_advance L s1
      in (ret, s2, count, cpu_dat))"

text \<open>\<^verbatim>\<open>case TGUI_BITBLT\<close> after the pattern and the pitch are set.\<close>

definition bitblt :: "locals \<Rightarrow> int \<Rightarrow> 32 word \<Rightarrow> tgui_t \<Rightarrow> tgui_t option" where
  "bitblt L count cpu_dat s =
     (let s1 = (if count = - 1 then bitblt_start s else s);
          sel = accel_flags s1 AND (TGUI_SRCMONO OR TGUI_SRCDISP)
      in if sel = TGUI_SRCCPU then
           (if count = - 1 then
              (let s2 = (if svga_crtc s1 0x21 AND 0x20 \<noteq> 0 then s1\<lparr>write_blitter := 1\<rparr> else s1)
               in if accel_use_src s2 \<noteq> 0 then Some s2
                  else accel_loop (bitblt_cpu_body L) s2 count cpu_dat)
            else accel_loop (bitblt_cpu_body L) s1 (count div 8) cpu_dat)
         else if sel = (TGUI_SRCMONO OR TGUI_SRCCPU) then
           (if count = - 1 then
              (let s2 = (if svga_crtc s1 0x21 AND 0x20 \<noteq> 0 then s1\<lparr>write_blitter := 1\<rparr> else s1)
               in if accel_use_src s2 \<noteq> 0 then Some s2
                  else accel_loop (bitblt_mono_body L) s2 count cpu_dat)
            else accel_loop (bitblt_mono_body L) s1 count cpu_dat)
         else accel_loop (bitblt_disp_body L) s1 count cpu_dat)"

subsection \<open>Scanline transfer\<close>

definition scanline_start :: "tgui_t \<Rightarrow> tgui_t" where
  "scanline_start s =
     (let so = scast (accel_src_x s) + scast (accel_src_y s) * accel_pitch s;
          d = scast (accel_dst_x s) + scast (accel_dst_y s) * accel_pitch s
      in s\<lparr>accel_src_old := so, accel_src := so, accel_dst_old := d, accel_dst := d,
           accel_pat_x := scast (accel_dst_x s), accel_pat_y := scast (accel_dst_y s)\<rparr>)"

text \<open>The end of a pixel in the scanline loop: the function returns when the row wraps.\<close>

definition scanline_advance :: "locals \<Rightarrow> tgui_t \<Rightarrow> bool \<times> tgui_t" where
  "scanline_advance L s =
     (let s2 = s\<lparr>accel_src := accel_src s + xdir L, accel_dst := accel_dst s + xdir L,
                accel_pat_x := accel_pat_x s + xdir L\<rparr>;
          s3 = s2\<lparr>accel_x := accel_x s2 + 1\<rparr>
      in if sint (accel_x s3) > sint (accel_size_x s3) then
           (let so = accel_src_old s3 + ydir L * accel_pitch s3;
                d = accel_dst_old s3 + ydir L * accel_pitch s3
            in (True,
                s3\<lparr>accel_x := 0, accel_pat_x := scast (accel_dst_x s3),
                   accel_src_old := so, accel_src := so, accel_dst_old := d, accel_dst := d,
                   accel_pat_y := accel_pat_y s3 + ydir L\<rparr>))
         else (False, s3))"

definition scanline_body :: "locals \<Rightarrow> loop_body" where
  "scanline_body L s count cpu_dat =
     (let src_dat = READ s (accel_src s);
          s1 = (if trans_write_cond L s src_dat then blt_pixel L s src_dat else s);
          (ret, s2) = scanline_advance L s1
      in (ret, s2, count, cpu_dat))"

definition scanline :: "locals \<Rightarrow> int \<Rightarrow> 32 word \<Rightarrow> tgui_t \<Rightarrow> tgui_t option" where
  "scanline L count cpu_dat s =
     accel_loop (scanline_body L) (if count = - 1 then scanline_start s else s) count cpu_dat"

subsection \<open>Line commands\<close>

text \<open>
  The draw that opens the body of all three line loops: the pattern operand is the
  foreground colour, the source operand is the initial value \<open>0\<close> of \<^verbatim>\<open>src_dat\<close>, and the
  address is \<^verbatim>\<open>dx + dy * pitch\<close> computed in \<^verbatim>\<open>int\<close>.
\<close>

definition line_draw :: "tgui_t \<Rightarrow> tgui_t" where
  "line_draw s =
     (if clip_ok_line s then
        (let a = scast (accel_dx s) + scast (accel_dy s) * accel_pitch s;
             dst_dat = READ s a;
             pat_dat = accel_fg_col s
         in WRITE s a (MIX s dst_dat pat_dat 0))
      else s)"

text \<open>The tail shared by the three loops: \<^verbatim>\<open>y--\<close>, \<^verbatim>\<open>dx &= 0xfff\<close>, \<^verbatim>\<open>dy &= 0xfff\<close>.\<close>

definition line_tail :: "tgui_t \<Rightarrow> tgui_t" where
  "line_tail s =
     s\<lparr>accel_y := accel_y s - 1, accel_dx := accel_dx s AND 0xfff,
       accel_dy := accel_dy s AND 0xfff\<rparr>"

definition bres_start :: "tgui_t \<Rightarrow> tgui_t" where
  "bres_start s =
     clip_setup (s\<lparr>accel_dx := accel_dst_x s AND 0xfff, accel_dy := accel_dst_y s AND 0xfff,
                   accel_y := accel_size_y s\<rparr>)"

text \<open>
  The Bresenham loop after the draw.  First the error term kept in \<^verbatim>\<open>size_x\<close>: when it
  is not negative, \<^verbatim>\<open>src_x\<close> is added and the first \<^verbatim>\<open>switch ((flags >> 8) & 7)\<close> steps
  the minor axis; otherwise \<^verbatim>\<open>src_y\<close> is added.
\<close>

definition bres_minor :: "tgui_t \<Rightarrow> tgui_t" where
  "bres_minor s1 =
     (let oct = drop_bit 8 (accel_flags s1) AND 7
      in if sint (accel_size_x s1) \<ge> 0 then
           (let t = s1\<lparr>accel_size_x := accel_size_x s1 + accel_src_x s1\<rparr>
            in if oct = 0 \<or> oct = 2 then t\<lparr>accel_dy := accel_dy t + 1\<rparr>
               else if oct = 1 \<or> oct = 3 then t\<lparr>accel_dy := accel_dy t - 1\<rparr>
               else if oct = 4 \<or> oct = 5 then t\<lparr>accel_dx := accel_dx t + 1\<rparr>
               else if oct = 6 \<or> oct = 7 then t\<lparr>accel_dx := accel_dx t - 1\<rparr>
               else t)
         else s1\<lparr>accel_size_x := accel_size_x s1 + accel_src_y s1\<rparr>)"

text \<open>Then the second \<^verbatim>\<open>switch ((flags >> 8) & 7)\<close>, the step of the major axis.\<close>

definition bres_major :: "tgui_t \<Rightarrow> tgui_t" where
  "bres_major s2 =
     (let oct = drop_bit 8 (accel_flags s2) AND 7
      in if oct = 0 \<or> oct = 1 then s2\<lparr>accel_dx := accel_dx s2 + 1\<rparr>
         else if oct = 2 \<or> oct = 3 then s2\<lparr>accel_dx := accel_dx s2 - 1\<rparr>
         else if oct = 4 \<or> oct = 6 then s2\<lparr>accel_dy := accel_dy s2 + 1\<rparr>
         else if oct = 5 \<or> oct = 7 then s2\<lparr>accel_dy := accel_dy s2 - 1\<rparr>
         else s2)"

definition bres_step :: "tgui_t \<Rightarrow> tgui_t" where
  "bres_step s1 = bres_major (bres_minor s1)"

definition bres_body :: loop_body where
  "bres_body s count cpu_dat =
     (let s1 = line_draw s
      in if accel_y s1 = 0 then (True, s1, count, cpu_dat)
         else (False, line_tail (bres_step s1), count, cpu_dat))"

definition shortvector_start :: "tgui_t \<Rightarrow> tgui_t" where
  "shortvector_start s =
     clip_setup (s\<lparr>accel_dx := accel_dst_x s AND 0xfff, accel_dy := accel_dst_y s AND 0xfff,
                   accel_y := accel_sv_size_y s AND 0xfff\<rparr>)"

text \<open>\<^verbatim>\<open>switch ((tgui->accel.sv_size_y >> 8) & 0xe0)\<close> of the short vector.\<close>

definition shortvector_step :: "tgui_t \<Rightarrow> tgui_t" where
  "shortvector_step s1 =
     (let sel = drop_bit 8 (accel_sv_size_y s1) AND 0xe0
      in if sel = 0x00 then s1\<lparr>accel_dx := accel_dx s1 + 1\<rparr>
         else if sel = 0x20 then s1\<lparr>accel_dx := accel_dx s1 + 1, accel_dy := accel_dy s1 - 1\<rparr>
         else if sel = 0x40 then s1\<lparr>accel_dy := accel_dy s1 - 1\<rparr>
         else if sel = 0x60 then s1\<lparr>accel_dx := accel_dx s1 - 1, accel_dy := accel_dy s1 - 1\<rparr>
         else if sel = 0x80 then s1\<lparr>accel_dx := accel_dx s1 - 1\<rparr>
         else if sel = 0xa0 then s1\<lparr>accel_dx := accel_dx s1 - 1, accel_dy := accel_dy s1 + 1\<rparr>
         else if sel = 0xc0 then s1\<lparr>accel_dy := accel_dy s1 + 1\<rparr>
         else if sel = 0xe0 then s1\<lparr>accel_dx := accel_dx s1 + 1, accel_dy := accel_dy s1 + 1\<rparr>
         else s1)"

definition shortvector_body :: loop_body where
  "shortvector_body s count cpu_dat =
     (let s1 = line_draw s
      in if accel_y s1 = 0 then (True, s1, count, cpu_dat)
         else (False, line_tail (shortvector_step s1), count, cpu_dat))"

definition fastline_start :: "tgui_t \<Rightarrow> tgui_t" where
  "fastline_start s =
     clip_setup (s\<lparr>accel_dx := accel_dst_x s AND 0xfff, accel_dy := accel_dst_y s AND 0xfff,
                   accel_y := accel_size_y s\<rparr>)"

text \<open>\<^verbatim>\<open>switch ((tgui->accel.size_y >> 8) & 0xe0)\<close> of the fast line.\<close>

definition fastline_step :: "tgui_t \<Rightarrow> tgui_t" where
  "fastline_step s1 =
     (let sel = drop_bit 8 (accel_size_y s1) AND 0xe0
      in if sel = 0x00 then s1\<lparr>accel_dx := accel_dx s1 + 1\<rparr>
         else if sel = 0x20 then s1\<lparr>accel_dx := accel_dx s1 + 1, accel_dy := accel_dy s1 - 1\<rparr>
         else if sel = 0x40 then s1\<lparr>accel_dy := accel_dy s1 - 1\<rparr>
         else if sel = 0x60 then s1\<lparr>accel_dx := accel_dx s1 - 1, accel_dy := accel_dy s1 - 1\<rparr>
         else if sel = 0x80 then s1\<lparr>accel_dx := accel_dx s1 - 1\<rparr>
         else if sel = 0xa0 then s1\<lparr>accel_dx := accel_dx s1 - 1, accel_dy := accel_dy s1 + 1\<rparr>
         else if sel = 0xc0 then s1\<lparr>accel_dy := accel_dy s1 + 1\<rparr>
         else if sel = 0xe0 then s1\<lparr>accel_dx := accel_dx s1 + 1, accel_dy := accel_dy s1 + 1\<rparr>
         else s1)"

definition fastline_body :: loop_body where
  "fastline_body s count cpu_dat =
     (let s1 = line_draw s
      in if accel_y s1 = 0 then (True, s1, count, cpu_dat)
         else (False, line_tail (fastline_step s1), count, cpu_dat))"

subsection \<open>The function\<close>

text \<open>
  The prologue up to the \<^verbatim>\<open>switch\<close> on the command: the adjustment of \<^verbatim>\<open>count\<close> and
  \<^verbatim>\<open>cpu_dat\<close> for a monochrome source, the reset of \<^verbatim>\<open>x\<close> and \<^verbatim>\<open>y\<close> on a start
  invocation, \<^verbatim>\<open>pattern_32_idx = 0\<close>, the pattern cache and the pitch.
\<close>

definition mono_adjust :: "int \<Rightarrow> 32 word \<Rightarrow> tgui_t \<Rightarrow> int \<times> 32 word" where
  "mono_adjust count cpu_dat s =
     (let sh = unat (drop_bit 24 (accel_flags s) AND 7)
      in if count \<noteq> - 1 \<and> accel_x s = 0 \<and> accel_flags s AND TGUI_SRCMONO \<noteq> 0
         then (count - int sh, push_bit sh cpu_dat) else (count, cpu_dat))"

definition prologue_reset :: "int \<Rightarrow> tgui_t \<Rightarrow> tgui_t" where
  "prologue_reset count s =
     (let s1 = (if count = - 1 then s\<lparr>accel_x := 0, accel_y := 0\<rparr> else s)
      in s1\<lparr>accel_pattern_32_idx := 0\<rparr>)"

definition command_prologue :: "int \<Rightarrow> 32 word \<Rightarrow> tgui_t \<Rightarrow> locals \<times> int \<times> 32 word \<times> tgui_t" where
  "command_prologue count cpu_dat s =
     (let xd = xdir_of s; yd = ydir_of s; tc = trans_col_of s;
          (count1, cpu1) = mono_adjust count cpu_dat s;
          (s3, pd) = pattern_setup (prologue_reset count1 s);
          s4 = pitch_setup s3
      in (\<lparr>xdir = xd, ydir = yd, trans_col = tc, pattern_data = pd\<rparr>, count1, cpu1, s4))"

definition tgui_accel_command :: "int \<Rightarrow> 32 word \<Rightarrow> tgui_t \<Rightarrow> tgui_t option" where
  "tgui_accel_command count cpu_dat s =
     (let (L, count1, cpu1, s1) = command_prologue count cpu_dat s
      in if accel_command s1 = TGUI_BITBLT then bitblt L count1 cpu1 s1
         else if accel_command s1 = TGUI_SCANLINE then scanline L count1 cpu1 s1
         else if accel_command s1 = TGUI_BRESENHAMLINE then
           accel_loop bres_body (if count1 = - 1 then bres_start s1 else s1) count1 cpu1
         else if accel_command s1 = TGUI_SHORTVECTOR then
           accel_loop shortvector_body (if count1 = - 1 then shortvector_start s1 else s1)
             count1 cpu1
         else if accel_command s1 = TGUI_FASTLINE then
           (if tgui_type s1 < TGUI_9660 then Some s1
            else accel_loop fastline_body (if count1 = - 1 then fastline_start s1 else s1)
                   count1 cpu1)
         else Some s1)"

section \<open>Register file\<close>

text \<open>The \<^verbatim>\<open>switch (svga->bpp)\<close> that follows a write to \<^verbatim>\<open>0x2122\<close> or \<^verbatim>\<open>0x2123\<close>.\<close>

definition set_accel_bpp :: "tgui_t \<Rightarrow> tgui_t" where
  "set_accel_bpp s =
     (if svga_bpp s = 8 \<or> svga_bpp s = 24 then s\<lparr>accel_bpp := 0\<rparr>
      else if svga_bpp s = 15 \<or> svga_bpp s = 16 then s\<lparr>accel_bpp := 1\<rparr>
      else if svga_bpp s = 32 then s\<lparr>accel_bpp := 3\<rparr>
      else s)"

text \<open>
  \<^verbatim>\<open>tgui_accel_out\<close>, one branch per \<^verbatim>\<open>case\<close> in source order.  The 128 labels
  \<^verbatim>\<open>0x2180\<close> \<open>\<dots>\<close> \<^verbatim>\<open>0x21ff\<close> of the pattern bytes are one range test, and the index
  \<^verbatim>\<open>(pattern_32_idx + 1) & 0xff\<close> is taken \<open>mod 256\<close>.  The result is \<open>None\<close> only when the
  write starts a command whose loop does not end.
\<close>

definition tgui_accel_out :: "16 word \<Rightarrow> 8 word \<Rightarrow> tgui_t \<Rightarrow> tgui_t option" where
  "tgui_accel_out addr val s =
     (if addr = 0x2122 then
        Some (set_accel_bpp (s\<lparr>accel_ger22 := (accel_ger22 s AND 0xff00) OR ucast val\<rparr>))
      else if addr = 0x2123 then
        Some (set_accel_bpp (s\<lparr>accel_ger22 := (accel_ger22 s AND 0xff) OR push_bit 8 (ucast val)\<rparr>))
      else if addr = 0x2124 then
        tgui_accel_command (- 1) 0 (s\<lparr>accel_command := uint val\<rparr>)
      else if addr = 0x2127 then
        Some (s\<lparr>accel_rop := val,
                accel_use_src := uint ((val AND 0x33) XOR (drop_bit 2 val AND 0x33))\<rparr>)
      else if addr = 0x2128 then
        Some (s\<lparr>accel_flags := (accel_flags s AND 0xffffff00) OR ucast val\<rparr>)
      else if addr = 0x2129 then
        Some (s\<lparr>accel_flags := (accel_flags s AND 0xffff00ff) OR push_bit 8 (ucast val)\<rparr>)
      else if addr = 0x212a then
        Some (s\<lparr>accel_flags := (accel_flags s AND 0xff00ffff) OR push_bit 16 (ucast val)\<rparr>)
      else if addr = 0x212b then
        Some (s\<lparr>accel_flags := (accel_flags s AND 0x0000ffff) OR push_bit 24 (ucast val)\<rparr>)
      else if addr = 0x212c \<or> addr = 0x2178 then
        Some (s\<lparr>accel_fg_col := (accel_fg_col s AND 0xffffff00) OR ucast val\<rparr>)
      else if addr = 0x212d \<or> addr = 0x2179 then
        Some (s\<lparr>accel_fg_col := (accel_fg_col s AND 0xffff00ff) OR push_bit 8 (ucast val)\<rparr>)
      else if addr = 0x212e \<or> addr = 0x217a then
        Some (s\<lparr>accel_fg_col := (accel_fg_col s AND 0xff00ffff) OR push_bit 16 (ucast val)\<rparr>)
      else if addr = 0x212f \<or> addr = 0x217b then
        Some (s\<lparr>accel_fg_col := (accel_fg_col s AND 0x00ffffff) OR push_bit 24 (ucast val)\<rparr>)
      else if addr = 0x2130 \<or> addr = 0x217c then
        Some (s\<lparr>accel_bg_col := (accel_bg_col s AND 0xffffff00) OR ucast val\<rparr>)
      else if addr = 0x2131 \<or> addr = 0x217d then
        Some (s\<lparr>accel_bg_col := (accel_bg_col s AND 0xffff00ff) OR push_bit 8 (ucast val)\<rparr>)
      else if addr = 0x2132 \<or> addr = 0x217e then
        Some (s\<lparr>accel_bg_col := (accel_bg_col s AND 0xff00ffff) OR push_bit 16 (ucast val)\<rparr>)
      else if addr = 0x2133 \<or> addr = 0x217f then
        Some (s\<lparr>accel_bg_col := (accel_bg_col s AND 0x00ffffff) OR push_bit 24 (ucast val)\<rparr>)
      else if addr = 0x2134 then
        Some (s\<lparr>accel_patloc := (accel_patloc s AND 0xff00) OR ucast val\<rparr>)
      else if addr = 0x2135 then
        Some (s\<lparr>accel_patloc := (accel_patloc s AND 0xff) OR push_bit 8 (ucast val)\<rparr>)
      else if addr = 0x2138 then
        Some (s\<lparr>accel_dst_x := (accel_dst_x s AND 0xff00) OR ucast val\<rparr>)
      else if addr = 0x2139 then
        Some (s\<lparr>accel_dst_x := (accel_dst_x s AND 0xff) OR push_bit 8 (ucast val)\<rparr>)
      else if addr = 0x213a then
        Some (s\<lparr>accel_dst_y := (accel_dst_y s AND 0xff00) OR ucast val\<rparr>)
      else if addr = 0x213b then
        Some (s\<lparr>accel_dst_y := (accel_dst_y s AND 0xff) OR push_bit 8 (ucast val)\<rparr>)
      else if addr = 0x213c then
        Some (s\<lparr>accel_src_x := (accel_src_x s AND 0x3f00) OR ucast val\<rparr>)
      else if addr = 0x213d then
        (let v = (accel_src_x s AND 0xff) OR push_bit 8 (ucast (val AND 0x3f))
            in Some (s\<lparr>accel_src_x := (if val AND 0x20 \<noteq> 0 then v OR NOT 0x3fff else v)\<rparr>))
      else if addr = 0x213e then
        Some (s\<lparr>accel_src_y := (accel_src_y s AND 0x3f00) OR ucast val\<rparr>)
      else if addr = 0x213f then
        (let v = (accel_src_y s AND 0xff) OR push_bit 8 (ucast (val AND 0x3f))
            in Some (s\<lparr>accel_src_y := (if val AND 0x20 \<noteq> 0 then v OR NOT 0x3fff else v)\<rparr>))
      else if addr = 0x2140 then
        Some (s\<lparr>accel_size_x := (accel_size_x s AND 0x3f00) OR ucast val\<rparr>)
      else if addr = 0x2141 then
        (let v = (accel_size_x s AND 0xff) OR push_bit 8 (ucast (val AND 0x3f))
            in Some (s\<lparr>accel_size_x := (if val AND 0x20 \<noteq> 0 then v OR NOT 0x1fff else v)\<rparr>))
      else if addr = 0x2142 then
        Some (s\<lparr>accel_size_y := (accel_size_y s AND 0xf00) OR ucast val,
                accel_sv_size_y := (accel_sv_size_y s AND 0xff00) OR ucast val\<rparr>)
      else if addr = 0x2143 then
        Some (s\<lparr>accel_size_y := (accel_size_y s AND 0xff) OR push_bit 8 (ucast (val AND 0x0f)),
                accel_sv_size_y := (accel_sv_size_y s AND 0xff) OR push_bit 8 (ucast val)\<rparr>)
      else if addr = 0x2144 then
        Some (s\<lparr>accel_style := (accel_style s AND 0xffffff00) OR ucast val\<rparr>)
      else if addr = 0x2145 then
        Some (s\<lparr>accel_style := (accel_style s AND 0xffff00ff) OR push_bit 8 (ucast val)\<rparr>)
      else if addr = 0x2146 then
        Some (s\<lparr>accel_style := (accel_style s AND 0xff00ffff) OR push_bit 16 (ucast val)\<rparr>)
      else if addr = 0x2147 then
        Some (s\<lparr>accel_style := (accel_style s AND 0x00ffffff) OR push_bit 24 (ucast val)\<rparr>)
      else if addr = 0x2148 then
        Some (s\<lparr>accel_src_x_clip := (accel_src_x_clip s AND 0xff00) OR ucast val\<rparr>)
      else if addr = 0x2149 then
        Some (s\<lparr>accel_src_x_clip := (accel_src_x_clip s AND 0xff) OR push_bit 8 (ucast val)\<rparr>)
      else if addr = 0x214a then
        Some (s\<lparr>accel_src_y_clip := (accel_src_y_clip s AND 0xff00) OR ucast val\<rparr>)
      else if addr = 0x214b then
        Some (s\<lparr>accel_src_y_clip := (accel_src_y_clip s AND 0xff) OR push_bit 8 (ucast val)\<rparr>)
      else if addr = 0x214c then
        Some (s\<lparr>accel_dst_x_clip := (accel_dst_x_clip s AND 0xff00) OR ucast val\<rparr>)
      else if addr = 0x214d then
        Some (s\<lparr>accel_dst_x_clip := (accel_dst_x_clip s AND 0xff) OR push_bit 8 (ucast val)\<rparr>)
      else if addr = 0x214e then
        Some (s\<lparr>accel_dst_y_clip := (accel_dst_y_clip s AND 0xff00) OR ucast val\<rparr>)
      else if addr = 0x214f then
        Some (s\<lparr>accel_dst_y_clip := (accel_dst_y_clip s AND 0xff) OR push_bit 8 (ucast val)\<rparr>)
      else if addr = 0x2168 then
        Some (s\<lparr>accel_ckey := (accel_ckey s AND 0xffffff00) OR ucast val\<rparr>)
      else if addr = 0x2169 then
        Some (s\<lparr>accel_ckey := (accel_ckey s AND 0xffff00ff) OR push_bit 8 (ucast val)\<rparr>)
      else if addr = 0x216a then
        Some (s\<lparr>accel_ckey := (accel_ckey s AND 0xff00ffff) OR push_bit 16 (ucast val)\<rparr>)
      else if addr = 0x216b then
        Some (s\<lparr>accel_ckey := (accel_ckey s AND 0x00ffffff) OR push_bit 24 (ucast val)\<rparr>)
      else if 0x2180 \<le> addr \<and> addr \<le> 0x21ff then
        Some (s\<lparr>accel_pattern := (accel_pattern s)(unat (addr AND 0x7f) := val),
                accel_pattern_32bpp := (accel_pattern_32bpp s)(accel_pattern_32_idx s := val),
                accel_pattern_32_idx := (accel_pattern_32_idx s + 1) mod 256\<rparr>)
      else Some s)"

definition tgui_accel_out_w :: "16 word \<Rightarrow> 16 word \<Rightarrow> tgui_t \<Rightarrow> tgui_t option" where
  "tgui_accel_out_w addr val s =
     Option.bind (tgui_accel_out addr (ucast val) s)
       (tgui_accel_out (addr + 1) (ucast (drop_bit 8 val)))"







text \<open>
  The writes through the linear aperture.  While \<^verbatim>\<open>write_blitter\<close> is set the data goes
  to the command engine; otherwise to \<^verbatim>\<open>svga_write_linear\<close> and its word and dword
  variants, which belong to the SVGA core and are parameters here.
\<close>

definition tgui_accel_write_fb_b ::
  "(32 word \<Rightarrow> 8 word \<Rightarrow> tgui_t \<Rightarrow> tgui_t) \<Rightarrow> 32 word \<Rightarrow> 8 word \<Rightarrow> tgui_t \<Rightarrow> tgui_t option" where
  "tgui_accel_write_fb_b svga_write_linear addr val s =
     (if write_blitter s \<noteq> 0 then tgui_accel_command 8 (push_bit 24 (ucast val)) s
      else Some (svga_write_linear addr val s))"

definition tgui_accel_write_fb_w ::
  "(32 word \<Rightarrow> 16 word \<Rightarrow> tgui_t \<Rightarrow> tgui_t) \<Rightarrow> 32 word \<Rightarrow> 16 word \<Rightarrow> tgui_t \<Rightarrow> tgui_t option" where
  "tgui_accel_write_fb_w svga_writew_linear addr val s =
     (if write_blitter s \<noteq> 0 then
        tgui_accel_command 16
          (push_bit 16 (ucast (drop_bit 8 (val AND 0xff00)) OR ucast (push_bit 8 (val AND 0x00ff)))) s
      else Some (svga_writew_linear addr val s))"

definition tgui_accel_write_fb_l ::
  "(32 word \<Rightarrow> 32 word \<Rightarrow> tgui_t \<Rightarrow> tgui_t) \<Rightarrow> 32 word \<Rightarrow> 32 word \<Rightarrow> tgui_t \<Rightarrow> tgui_t option" where
  "tgui_accel_write_fb_l svga_writel_linear addr val s =
     (if write_blitter s \<noteq> 0 then
        tgui_accel_command 32
          (drop_bit 24 (val AND 0xff000000) OR drop_bit 8 (val AND 0x00ff0000)
             OR push_bit 8 (val AND 0x0000ff00) OR push_bit 24 (val AND 0x000000ff)) s
      else Some (svga_writel_linear addr val s))"

section \<open>Notions used to state the properties\<close>

text \<open>The all-ones pixel of each pixel-width class (\<^verbatim>\<open>accel.bpp\<close> 0, 1, otherwise).\<close>

definition pix_mask :: "int \<Rightarrow> 32 word" where
  "pix_mask bpp = (if bpp = 0 then 0xff else if bpp = 1 then 0xffff else - 1)"

text \<open>
  The pixel that \<^verbatim>\<open>MIX(); WRITE(addr, out)\<close> leaves in the framebuffer under raster-op
  code \<open>R\<close>, read back with \<^verbatim>\<open>READ\<close>.
\<close>

definition rop_pixel :: "8 word \<Rightarrow> tgui_t \<Rightarrow> 32 word \<Rightarrow> 32 word \<Rightarrow> 32 word \<Rightarrow> 32 word \<Rightarrow> 32 word" where
  "rop_pixel R s addr D P S =
     (let s' = s\<lparr>accel_rop := R\<rparr> in READ (WRITE s' addr (MIX s' D P S)) addr)"


text \<open>
  The registers and device parameters that no command changes while it runs (the
  Bresenham line changes \<^verbatim>\<open>size_x\<close>, which is therefore not listed).
\<close>

definition cfg_of :: "tgui_t \<Rightarrow> _" where
  "cfg_of s = (tgui_type s, vram_mask s, mon_changeframecount s, svga_bpp s,
     svga_rowoffset s, svga_crtc s, accel_bpp s, accel_rop s,
     accel_flags s, accel_fg_col s, accel_bg_col s, accel_ger22 s,
     accel_command s, accel_use_src s, accel_size_y s, accel_sv_size_y s,
     accel_dst_x s, accel_dst_y s, accel_src_x s, accel_src_y s)"


text \<open>
  The direction table as the specification gives it for the short vector and the fast
  line (code \<open>\<mapsto>\<close> step in x and y): 0 \<open>\<mapsto>\<close> +x, 1 \<open>\<mapsto>\<close> +x-y, 2 \<open>\<mapsto>\<close> -y,
  3 \<open>\<mapsto>\<close> -x-y, 4 \<open>\<mapsto>\<close> -x, 5 \<open>\<mapsto>\<close> -x+y, 6 \<open>\<mapsto>\<close> +y, 7 \<open>\<mapsto>\<close> +x+y.  It follows the
  specification, not the code, and is only compared with the two \<^verbatim>\<open>switch\<close> statements.
\<close>

definition octant_step_spec :: "nat \<Rightarrow> int \<times> int" where
  "octant_step_spec code =
     (if code = 0 then (1, 0) else if code = 1 then (1, - 1) else if code = 2 then (0, - 1)
      else if code = 3 then (- 1, - 1) else if code = 4 then (- 1, 0)
      else if code = 5 then (- 1, 1) else if code = 6 then (0, 1) else (1, 1))"


text \<open>
  The step in x and in y of \<^const>\<open>octant_step_spec\<close> for the code in bits 13--15 of a
  16-bit register value, as 16-bit quantities to add to \<^verbatim>\<open>dx\<close> and \<^verbatim>\<open>dy\<close>.
\<close>

definition octant_dx :: "16 word \<Rightarrow> 16 word" where
  "octant_dx w = word_of_int (fst (octant_step_spec (unat (drop_bit 13 w))))"

definition octant_dy :: "16 word \<Rightarrow> 16 word" where
  "octant_dy w = word_of_int (snd (octant_step_spec (unat (drop_bit 13 w))))"




section \<open>Word and framebuffer lemmas\<close>


lemmas ROPMIX_groups = ROPMIX_0_def ROPMIX_1_def ROPMIX_2_def ROPMIX_3_def ROPMIX_4_def
  ROPMIX_5_def ROPMIX_6_def ROPMIX_7_def ROPMIX_8_def ROPMIX_9_def ROPMIX_a_def ROPMIX_b_def
  ROPMIX_c_def ROPMIX_d_def ROPMIX_e_def ROPMIX_f_def

lemma and_ff_take_bit: "(w :: 'a::len word) AND 0xff = take_bit 8 w"
  by (simp add: take_bit_eq_mask mask_eq_decr_exp)

lemma and_ffff_take_bit: "(w :: 'a::len word) AND 0xffff = take_bit 16 w"
  by (simp add: take_bit_eq_mask mask_eq_decr_exp)

lemma rd_wr8: "vram_rd8 (vram_wr8 v i d) i = d AND 0xff"
  unfolding and_ff_take_bit
  apply (simp add: vram_rd8_def vram_wr8_def)
  apply (rule bit_word_eqI)
  apply (auto simp add: bit_simps)
  done

lemma rd_wr16: "vram_rd16 (vram_wr16 v i d) i = d AND 0xffff"
  unfolding and_ffff_take_bit
  apply (simp add: vram_rd16_def vram_wr16_def)
  apply (rule bit_word_eqI)
  apply (auto simp add: bit_simps)
  done

lemma rd_wr32: "vram_rd32 (vram_wr32 v i d) i = d"
  apply (simp add: vram_rd32_def vram_wr32_def)
  apply (rule bit_word_eqI)
  subgoal for n
    apply (cases "n < 8"; cases "n < 16"; cases "n < 24")
    apply (auto simp add: bit_simps)
    done
  done


lemma rop_pixel_eq: "rop_pixel R s a D P S = ROPMIX R D P S AND pix_mask (accel_bpp s)"
  by (simp add: rop_pixel_def Let_def READ_def WRITE_def MIX_def rd_wr8 rd_wr16 rd_wr32
      pix_mask_def)

lemma ROPMIX_listed:
  "ROPMIX 0x00 D P S = 0" "ROPMIX 0xff D P S = - 1" "ROPMIX 0xaa D P S = D"
  "ROPMIX 0xcc D P S = S" "ROPMIX 0xf0 D P S = P" "ROPMIX 0x66 D P S = D XOR S"
  "ROPMIX 0x88 D P S = D AND S" "ROPMIX 0xee D P S = D OR S" "ROPMIX 0x5a D P S = D XOR P"
  by (simp_all add: ROPMIX_def ROPMIX_groups)

section \<open>The loop combinator\<close>

lemma accel_loop_0: "accel_loop b s 0 d = Some s"
  by (subst accel_loop.simps) simp

lemma accel_loop_step:
  "c \<noteq> 0 \<Longrightarrow> accel_loop b s c d =
     (case b s c d of (ret, s', c', d') \<Rightarrow> if ret then Some s' else accel_loop b s' (c' - 1) d')"
  by (subst accel_loop.simps) simp





lemma accel_loop_terminates:
  assumes I: "I s c"
    and step: "\<And>s c d. I s c \<Longrightarrow> c \<noteq> 0 \<Longrightarrow>
      (case b s c d of (r, s', c', d') \<Rightarrow> r \<or> (I s' (c' - 1) \<and> m s' (c' - 1) < (m s c :: nat)))"
  shows "\<exists>t. accel_loop b s c d = Some t"
  using I
proof (induction "m s c" arbitrary: s c d rule: less_induct)
  case less
  show ?case
  proof (cases "c = 0")
    case True
    then show ?thesis by (simp add: accel_loop_0)
  next
    case False
    obtain r s' c' d' where B: "b s c d = (r, s', c', d')" by (cases "b s c d") auto
    from step[OF less.prems False, of d] B
    have *: "r \<or> (I s' (c' - 1) \<and> m s' (c' - 1) < m s c)" by simp
    show ?thesis
    proof (cases r)
      case True
      with B False show ?thesis by (simp add: accel_loop_step)
    next
      case Fr: False
      with * have "I s' (c' - 1)" "m s' (c' - 1) < m s c" by auto
      from less.hyps[OF this(2) this(1)] obtain t where "accel_loop b s' (c' - 1) d' = Some t" by blast
      with Fr B False show ?thesis by (simp add: accel_loop_step)
    qed
  qed
qed

section \<open>How the helpers treat the colour key, the framebuffer and the registers\<close>


























lemma clip_setup_ckey:
  "clip_setup (s\<lparr>accel_ckey := k\<rparr>) = (clip_setup s)\<lparr>accel_ckey := k\<rparr>"
  apply (cases "accel_bpp s = 1", simp add: clip_setup_def Let_def)
  apply (cases "accel_bpp s = 3", simp add: clip_setup_def Let_def)
  apply (simp add: clip_setup_def Let_def)
  done














lemma pat_dat_of_fb: "pat_dat_of L (s\<lparr>svga_vram := v, svga_changedvram := w\<rparr>) = pat_dat_of L s"
  by (simp add: pat_dat_of_def Let_def)

lemma clip_ok_blt_fb: "clip_ok_blt (s\<lparr>svga_vram := v, svga_changedvram := w\<rparr>) = clip_ok_blt s"
  by (simp add: clip_ok_blt_def)

lemma clip_ok_line_fb: "clip_ok_line (s\<lparr>svga_vram := v, svga_changedvram := w\<rparr>) = clip_ok_line s"
  by (simp add: clip_ok_line_def)

lemma cpu_fetch_fb: "cpu_fetch (s\<lparr>svga_vram := v, svga_changedvram := w\<rparr>) c d = cpu_fetch s c d"
  by (simp add: cpu_fetch_def)

lemma cpu_write_cond_fb: "cpu_write_cond L (s\<lparr>svga_vram := v, svga_changedvram := w\<rparr>) = cpu_write_cond L s"
  by (simp add: cpu_write_cond_def pat_dat_of_fb)

lemma trans_write_cond_fb: "trans_write_cond L (s\<lparr>svga_vram := v, svga_changedvram := w\<rparr>) x = trans_write_cond L s x"
  by (simp add: trans_write_cond_def)

lemma mono_src_dat_fb: "mono_src_dat (s\<lparr>svga_vram := v, svga_changedvram := w\<rparr>) d = mono_src_dat s d"
  by (simp add: mono_src_dat_def Let_def)

lemma xdir_of_fb: "xdir_of (s\<lparr>svga_vram := v, svga_changedvram := w\<rparr>) = xdir_of s"
  by (simp add: xdir_of_def)

lemma ydir_of_fb: "ydir_of (s\<lparr>svga_vram := v, svga_changedvram := w\<rparr>) = ydir_of s"
  by (simp add: ydir_of_def)

lemma trans_col_of_fb: "trans_col_of (s\<lparr>svga_vram := v, svga_changedvram := w\<rparr>) = trans_col_of s"
  by (simp add: trans_col_of_def Let_def)

lemma MIX_fb: "MIX (s\<lparr>svga_vram := v, svga_changedvram := w\<rparr>) a b c = MIX s a b c"
  by (simp add: MIX_def)

lemma mono_adjust_fb: "mono_adjust c d (s\<lparr>svga_vram := v, svga_changedvram := w\<rparr>) = mono_adjust c d s"
  by (simp add: mono_adjust_def Let_def)

lemma fill_pattern_table_fb: "fill_pattern_table (s\<lparr>svga_vram := v, svga_changedvram := w\<rparr>) = fill_pattern_table s"
  by (simp add: fill_pattern_table_def)

lemma mono_pattern_table_fb: "mono_pattern_table (s\<lparr>svga_vram := v, svga_changedvram := w\<rparr>) = mono_pattern_table s"
  by (simp add: mono_pattern_table_def cong: if_cong)

lemma pattern_8_table_fb: "pattern_8_table (s\<lparr>svga_vram := v, svga_changedvram := w\<rparr>) = pattern_8_table s"
  by (simp add: pattern_8_table_def)

lemma pattern_16_table_fb: "pattern_16_table (s\<lparr>svga_vram := v, svga_changedvram := w\<rparr>) = pattern_16_table s"
  by (simp add: pattern_16_table_def)

lemma pattern_32_table_fb: "pattern_32_table (s\<lparr>svga_vram := v, svga_changedvram := w\<rparr>) = pattern_32_table s"
  by (simp add: pattern_32_table_def)

lemma blt_cpu_step_x_fb:
  "blt_cpu_step_x L (s\<lparr>svga_vram := v, svga_changedvram := w\<rparr>) = (blt_cpu_step_x L s)\<lparr>svga_vram := v, svga_changedvram := w\<rparr>"
  by (simp add: blt_cpu_step_x_def Let_def)

lemma blt_cpu_next_row_fb:
  "blt_cpu_next_row L (s\<lparr>svga_vram := v, svga_changedvram := w\<rparr>) = (blt_cpu_next_row L s)\<lparr>svga_vram := v, svga_changedvram := w\<rparr>"
  by (simp add: blt_cpu_next_row_def Let_def)

lemma line_tail_fb:
  "line_tail (s\<lparr>svga_vram := v, svga_changedvram := w\<rparr>) = (line_tail s)\<lparr>svga_vram := v, svga_changedvram := w\<rparr>"
  by (simp add: line_tail_def)

lemma bres_minor_fb:
  "bres_minor (s\<lparr>svga_vram := v, svga_changedvram := w\<rparr>) = (bres_minor s)\<lparr>svga_vram := v, svga_changedvram := w\<rparr>"
  apply (cases "sint (accel_size_x s) \<ge> 0 \<and> (drop_bit 8 (accel_flags s) AND 7 = 0)", simp add: bres_minor_def Let_def)
  apply (cases "sint (accel_size_x s) \<ge> 0 \<and> (drop_bit 8 (accel_flags s) AND 7 = 1)", simp add: bres_minor_def Let_def)
  apply (cases "sint (accel_size_x s) \<ge> 0 \<and> (drop_bit 8 (accel_flags s) AND 7 = 2)", simp add: bres_minor_def Let_def)
  apply (cases "sint (accel_size_x s) \<ge> 0 \<and> (drop_bit 8 (accel_flags s) AND 7 = 3)", simp add: bres_minor_def Let_def)
  apply (cases "sint (accel_size_x s) \<ge> 0 \<and> (drop_bit 8 (accel_flags s) AND 7 = 4)", simp add: bres_minor_def Let_def)
  apply (cases "sint (accel_size_x s) \<ge> 0 \<and> (drop_bit 8 (accel_flags s) AND 7 = 5)", simp add: bres_minor_def Let_def)
  apply (cases "sint (accel_size_x s) \<ge> 0 \<and> (drop_bit 8 (accel_flags s) AND 7 = 6)", simp add: bres_minor_def Let_def)
  apply (cases "sint (accel_size_x s) \<ge> 0 \<and> (drop_bit 8 (accel_flags s) AND 7 = 7)", simp add: bres_minor_def Let_def)
  apply (simp add: bres_minor_def Let_def)
  done

lemma bres_major_fb:
  "bres_major (s\<lparr>svga_vram := v, svga_changedvram := w\<rparr>) = (bres_major s)\<lparr>svga_vram := v, svga_changedvram := w\<rparr>"
  apply (cases "drop_bit 8 (accel_flags s) AND 7 = 0", simp add: bres_major_def Let_def)
  apply (cases "drop_bit 8 (accel_flags s) AND 7 = 1", simp add: bres_major_def Let_def)
  apply (cases "drop_bit 8 (accel_flags s) AND 7 = 2", simp add: bres_major_def Let_def)
  apply (cases "drop_bit 8 (accel_flags s) AND 7 = 3", simp add: bres_major_def Let_def)
  apply (cases "drop_bit 8 (accel_flags s) AND 7 = 4", simp add: bres_major_def Let_def)
  apply (cases "drop_bit 8 (accel_flags s) AND 7 = 5", simp add: bres_major_def Let_def)
  apply (cases "drop_bit 8 (accel_flags s) AND 7 = 6", simp add: bres_major_def Let_def)
  apply (cases "drop_bit 8 (accel_flags s) AND 7 = 7", simp add: bres_major_def Let_def)
  apply (simp add: bres_major_def Let_def)
  done

lemma bres_step_fb:
  "bres_step (s\<lparr>svga_vram := v, svga_changedvram := w\<rparr>) = (bres_step s)\<lparr>svga_vram := v, svga_changedvram := w\<rparr>"
  by (simp add: bres_step_def bres_minor_fb bres_major_fb)

lemma shortvector_step_fb:
  "shortvector_step (s\<lparr>svga_vram := v, svga_changedvram := w\<rparr>) = (shortvector_step s)\<lparr>svga_vram := v, svga_changedvram := w\<rparr>"
  apply (cases "drop_bit 8 (accel_sv_size_y s) AND 0xe0 = 0x00", simp add: shortvector_step_def Let_def)
  apply (cases "drop_bit 8 (accel_sv_size_y s) AND 0xe0 = 0x20", simp add: shortvector_step_def Let_def)
  apply (cases "drop_bit 8 (accel_sv_size_y s) AND 0xe0 = 0x40", simp add: shortvector_step_def Let_def)
  apply (cases "drop_bit 8 (accel_sv_size_y s) AND 0xe0 = 0x60", simp add: shortvector_step_def Let_def)
  apply (cases "drop_bit 8 (accel_sv_size_y s) AND 0xe0 = 0x80", simp add: shortvector_step_def Let_def)
  apply (cases "drop_bit 8 (accel_sv_size_y s) AND 0xe0 = 0xa0", simp add: shortvector_step_def Let_def)
  apply (cases "drop_bit 8 (accel_sv_size_y s) AND 0xe0 = 0xc0", simp add: shortvector_step_def Let_def)
  apply (cases "drop_bit 8 (accel_sv_size_y s) AND 0xe0 = 0xe0", simp add: shortvector_step_def Let_def)
  apply (simp add: shortvector_step_def Let_def)
  done

lemma fastline_step_fb:
  "fastline_step (s\<lparr>svga_vram := v, svga_changedvram := w\<rparr>) = (fastline_step s)\<lparr>svga_vram := v, svga_changedvram := w\<rparr>"
  apply (cases "drop_bit 8 (accel_size_y s) AND 0xe0 = 0x00", simp add: fastline_step_def Let_def)
  apply (cases "drop_bit 8 (accel_size_y s) AND 0xe0 = 0x20", simp add: fastline_step_def Let_def)
  apply (cases "drop_bit 8 (accel_size_y s) AND 0xe0 = 0x40", simp add: fastline_step_def Let_def)
  apply (cases "drop_bit 8 (accel_size_y s) AND 0xe0 = 0x60", simp add: fastline_step_def Let_def)
  apply (cases "drop_bit 8 (accel_size_y s) AND 0xe0 = 0x80", simp add: fastline_step_def Let_def)
  apply (cases "drop_bit 8 (accel_size_y s) AND 0xe0 = 0xa0", simp add: fastline_step_def Let_def)
  apply (cases "drop_bit 8 (accel_size_y s) AND 0xe0 = 0xc0", simp add: fastline_step_def Let_def)
  apply (cases "drop_bit 8 (accel_size_y s) AND 0xe0 = 0xe0", simp add: fastline_step_def Let_def)
  apply (simp add: fastline_step_def Let_def)
  done

lemma clip_setup_fb:
  "clip_setup (s\<lparr>svga_vram := v, svga_changedvram := w\<rparr>) = (clip_setup s)\<lparr>svga_vram := v, svga_changedvram := w\<rparr>"
  apply (cases "accel_bpp s = 1", simp add: clip_setup_def Let_def)
  apply (cases "accel_bpp s = 3", simp add: clip_setup_def Let_def)
  apply (simp add: clip_setup_def Let_def)
  done

lemma bitblt_start_fb:
  "bitblt_start (s\<lparr>svga_vram := v, svga_changedvram := w\<rparr>) = (bitblt_start s)\<lparr>svga_vram := v, svga_changedvram := w\<rparr>"
  apply (cases "accel_bpp s = 1", simp add: bitblt_start_def clip_setup_def Let_def)
  apply (cases "accel_bpp s = 3", simp add: bitblt_start_def clip_setup_def Let_def)
  apply (simp add: bitblt_start_def clip_setup_def Let_def)
  done

lemma scanline_start_fb:
  "scanline_start (s\<lparr>svga_vram := v, svga_changedvram := w\<rparr>) = (scanline_start s)\<lparr>svga_vram := v, svga_changedvram := w\<rparr>"
  by (simp add: scanline_start_def Let_def)

lemma bres_start_fb:
  "bres_start (s\<lparr>svga_vram := v, svga_changedvram := w\<rparr>) = (bres_start s)\<lparr>svga_vram := v, svga_changedvram := w\<rparr>"
  apply (cases "accel_bpp s = 1", simp add: bres_start_def clip_setup_def Let_def)
  apply (cases "accel_bpp s = 3", simp add: bres_start_def clip_setup_def Let_def)
  apply (simp add: bres_start_def clip_setup_def Let_def)
  done

lemma shortvector_start_fb:
  "shortvector_start (s\<lparr>svga_vram := v, svga_changedvram := w\<rparr>) = (shortvector_start s)\<lparr>svga_vram := v, svga_changedvram := w\<rparr>"
  apply (cases "accel_bpp s = 1", simp add: shortvector_start_def clip_setup_def Let_def)
  apply (cases "accel_bpp s = 3", simp add: shortvector_start_def clip_setup_def Let_def)
  apply (simp add: shortvector_start_def clip_setup_def Let_def)
  done

lemma fastline_start_fb:
  "fastline_start (s\<lparr>svga_vram := v, svga_changedvram := w\<rparr>) = (fastline_start s)\<lparr>svga_vram := v, svga_changedvram := w\<rparr>"
  apply (cases "accel_bpp s = 1", simp add: fastline_start_def clip_setup_def Let_def)
  apply (cases "accel_bpp s = 3", simp add: fastline_start_def clip_setup_def Let_def)
  apply (simp add: fastline_start_def clip_setup_def Let_def)
  done

lemma pitch_setup_fb:
  "pitch_setup (s\<lparr>svga_vram := v, svga_changedvram := w\<rparr>) = (pitch_setup s)\<lparr>svga_vram := v, svga_changedvram := w\<rparr>"
  by (simp add: pitch_setup_def)

lemma prologue_reset_fb:
  "prologue_reset c (s\<lparr>svga_vram := v, svga_changedvram := w\<rparr>) = (prologue_reset c s)\<lparr>svga_vram := v, svga_changedvram := w\<rparr>"
  apply (cases "c = - 1", simp add: prologue_reset_def Let_def)
  apply (simp add: prologue_reset_def Let_def)
  done

lemma blt_cpu_advance_fb:
  "blt_cpu_advance L (s\<lparr>svga_vram := v, svga_changedvram := w\<rparr>) =
     (case blt_cpu_advance L s of (r, s') \<Rightarrow> (r, s'\<lparr>svga_vram := v, svga_changedvram := w\<rparr>))"
  by (simp add: blt_cpu_advance_def Let_def blt_cpu_step_x_fb blt_cpu_next_row_fb)

lemma blt_disp_advance_fb:
  "blt_disp_advance L (s\<lparr>svga_vram := v, svga_changedvram := w\<rparr>) =
     (case blt_disp_advance L s of (r, s') \<Rightarrow> (r, s'\<lparr>svga_vram := v, svga_changedvram := w\<rparr>))"
  by (simp add: blt_disp_advance_def Let_def )

lemma scanline_advance_fb:
  "scanline_advance L (s\<lparr>svga_vram := v, svga_changedvram := w\<rparr>) =
     (case scanline_advance L s of (r, s') \<Rightarrow> (r, s'\<lparr>svga_vram := v, svga_changedvram := w\<rparr>))"
  by (simp add: scanline_advance_def Let_def )

lemma pattern_setup_fb:
  "pattern_setup (s\<lparr>svga_vram := v, svga_changedvram := w\<rparr>) =
     (case pattern_setup s of (s', pd) \<Rightarrow> (s'\<lparr>svga_vram := v, svga_changedvram := w\<rparr>, pd))"
  apply (cases "accel_flags s AND TGUI_SOLIDFILL \<noteq> 0", simp add: pattern_setup_def fill_pattern_table_fb mono_pattern_table_fb pattern_8_table_fb pattern_16_table_fb pattern_32_table_fb)
  apply (cases "accel_flags s AND TGUI_PATMONO \<noteq> 0", simp add: pattern_setup_def fill_pattern_table_fb mono_pattern_table_fb pattern_8_table_fb pattern_16_table_fb pattern_32_table_fb)
  apply (cases "accel_bpp s = 0", simp add: pattern_setup_def fill_pattern_table_fb mono_pattern_table_fb pattern_8_table_fb pattern_16_table_fb pattern_32_table_fb)
  apply (cases "accel_bpp s = 1", simp add: pattern_setup_def fill_pattern_table_fb mono_pattern_table_fb pattern_8_table_fb pattern_16_table_fb pattern_32_table_fb)
  apply (simp add: pattern_setup_def fill_pattern_table_fb mono_pattern_table_fb pattern_8_table_fb pattern_16_table_fb pattern_32_table_fb)
  done

lemma command_prologue_fb:
  "command_prologue c d (s\<lparr>svga_vram := v, svga_changedvram := w\<rparr>) =
     (case command_prologue c d s of (L, c1, d1, s1) \<Rightarrow> (L, c1, d1, s1\<lparr>svga_vram := v, svga_changedvram := w\<rparr>))"
  by (simp add: command_prologue_def Let_def xdir_of_fb ydir_of_fb trans_col_of_fb mono_adjust_fb
      prologue_reset_fb pattern_setup_fb pitch_setup_fb split: prod.splits)


lemma blt_cpu_step_x_cfg: "cfg_of (blt_cpu_step_x L s) = cfg_of s"
  by (simp add: blt_cpu_step_x_def Let_def cfg_of_def)

lemmas blt_cpu_step_x_sel = blt_cpu_step_x_cfg[unfolded cfg_of_def prod.inject]

lemma blt_cpu_next_row_cfg: "cfg_of (blt_cpu_next_row L s) = cfg_of s"
  by (simp add: blt_cpu_next_row_def Let_def cfg_of_def)

lemmas blt_cpu_next_row_sel = blt_cpu_next_row_cfg[unfolded cfg_of_def prod.inject]

lemma line_tail_cfg: "cfg_of (line_tail s) = cfg_of s"
  by (simp add: line_tail_def cfg_of_def)

lemmas line_tail_sel = line_tail_cfg[unfolded cfg_of_def prod.inject]

lemma bres_minor_cfg: "cfg_of (bres_minor s) = cfg_of s"
  apply (cases "sint (accel_size_x s) \<ge> 0 \<and> (drop_bit 8 (accel_flags s) AND 7 = 0)", simp add: bres_minor_def Let_def cfg_of_def)
  apply (cases "sint (accel_size_x s) \<ge> 0 \<and> (drop_bit 8 (accel_flags s) AND 7 = 1)", simp add: bres_minor_def Let_def cfg_of_def)
  apply (cases "sint (accel_size_x s) \<ge> 0 \<and> (drop_bit 8 (accel_flags s) AND 7 = 2)", simp add: bres_minor_def Let_def cfg_of_def)
  apply (cases "sint (accel_size_x s) \<ge> 0 \<and> (drop_bit 8 (accel_flags s) AND 7 = 3)", simp add: bres_minor_def Let_def cfg_of_def)
  apply (cases "sint (accel_size_x s) \<ge> 0 \<and> (drop_bit 8 (accel_flags s) AND 7 = 4)", simp add: bres_minor_def Let_def cfg_of_def)
  apply (cases "sint (accel_size_x s) \<ge> 0 \<and> (drop_bit 8 (accel_flags s) AND 7 = 5)", simp add: bres_minor_def Let_def cfg_of_def)
  apply (cases "sint (accel_size_x s) \<ge> 0 \<and> (drop_bit 8 (accel_flags s) AND 7 = 6)", simp add: bres_minor_def Let_def cfg_of_def)
  apply (cases "sint (accel_size_x s) \<ge> 0 \<and> (drop_bit 8 (accel_flags s) AND 7 = 7)", simp add: bres_minor_def Let_def cfg_of_def)
  apply (simp add: bres_minor_def Let_def cfg_of_def)
  done

lemmas bres_minor_sel = bres_minor_cfg[unfolded cfg_of_def prod.inject]

lemma bres_major_cfg: "cfg_of (bres_major s) = cfg_of s"
  apply (cases "drop_bit 8 (accel_flags s) AND 7 = 0", simp add: bres_major_def Let_def cfg_of_def)
  apply (cases "drop_bit 8 (accel_flags s) AND 7 = 1", simp add: bres_major_def Let_def cfg_of_def)
  apply (cases "drop_bit 8 (accel_flags s) AND 7 = 2", simp add: bres_major_def Let_def cfg_of_def)
  apply (cases "drop_bit 8 (accel_flags s) AND 7 = 3", simp add: bres_major_def Let_def cfg_of_def)
  apply (cases "drop_bit 8 (accel_flags s) AND 7 = 4", simp add: bres_major_def Let_def cfg_of_def)
  apply (cases "drop_bit 8 (accel_flags s) AND 7 = 5", simp add: bres_major_def Let_def cfg_of_def)
  apply (cases "drop_bit 8 (accel_flags s) AND 7 = 6", simp add: bres_major_def Let_def cfg_of_def)
  apply (cases "drop_bit 8 (accel_flags s) AND 7 = 7", simp add: bres_major_def Let_def cfg_of_def)
  apply (simp add: bres_major_def Let_def cfg_of_def)
  done

lemmas bres_major_sel = bres_major_cfg[unfolded cfg_of_def prod.inject]

lemma bres_step_cfg: "cfg_of (bres_step s) = cfg_of s"
  by (simp add: bres_step_def cfg_of_def bres_minor_sel bres_major_sel)

lemmas bres_step_sel = bres_step_cfg[unfolded cfg_of_def prod.inject]

lemma shortvector_step_cfg: "cfg_of (shortvector_step s) = cfg_of s"
  apply (cases "drop_bit 8 (accel_sv_size_y s) AND 0xe0 = 0x00", simp add: shortvector_step_def Let_def cfg_of_def)
  apply (cases "drop_bit 8 (accel_sv_size_y s) AND 0xe0 = 0x20", simp add: shortvector_step_def Let_def cfg_of_def)
  apply (cases "drop_bit 8 (accel_sv_size_y s) AND 0xe0 = 0x40", simp add: shortvector_step_def Let_def cfg_of_def)
  apply (cases "drop_bit 8 (accel_sv_size_y s) AND 0xe0 = 0x60", simp add: shortvector_step_def Let_def cfg_of_def)
  apply (cases "drop_bit 8 (accel_sv_size_y s) AND 0xe0 = 0x80", simp add: shortvector_step_def Let_def cfg_of_def)
  apply (cases "drop_bit 8 (accel_sv_size_y s) AND 0xe0 = 0xa0", simp add: shortvector_step_def Let_def cfg_of_def)
  apply (cases "drop_bit 8 (accel_sv_size_y s) AND 0xe0 = 0xc0", simp add: shortvector_step_def Let_def cfg_of_def)
  apply (cases "drop_bit 8 (accel_sv_size_y s) AND 0xe0 = 0xe0", simp add: shortvector_step_def Let_def cfg_of_def)
  apply (simp add: shortvector_step_def Let_def cfg_of_def)
  done

lemmas shortvector_step_sel = shortvector_step_cfg[unfolded cfg_of_def prod.inject]

lemma fastline_step_cfg: "cfg_of (fastline_step s) = cfg_of s"
  apply (cases "drop_bit 8 (accel_size_y s) AND 0xe0 = 0x00", simp add: fastline_step_def Let_def cfg_of_def)
  apply (cases "drop_bit 8 (accel_size_y s) AND 0xe0 = 0x20", simp add: fastline_step_def Let_def cfg_of_def)
  apply (cases "drop_bit 8 (accel_size_y s) AND 0xe0 = 0x40", simp add: fastline_step_def Let_def cfg_of_def)
  apply (cases "drop_bit 8 (accel_size_y s) AND 0xe0 = 0x60", simp add: fastline_step_def Let_def cfg_of_def)
  apply (cases "drop_bit 8 (accel_size_y s) AND 0xe0 = 0x80", simp add: fastline_step_def Let_def cfg_of_def)
  apply (cases "drop_bit 8 (accel_size_y s) AND 0xe0 = 0xa0", simp add: fastline_step_def Let_def cfg_of_def)
  apply (cases "drop_bit 8 (accel_size_y s) AND 0xe0 = 0xc0", simp add: fastline_step_def Let_def cfg_of_def)
  apply (cases "drop_bit 8 (accel_size_y s) AND 0xe0 = 0xe0", simp add: fastline_step_def Let_def cfg_of_def)
  apply (simp add: fastline_step_def Let_def cfg_of_def)
  done

lemmas fastline_step_sel = fastline_step_cfg[unfolded cfg_of_def prod.inject]

lemma clip_setup_cfg: "cfg_of (clip_setup s) = cfg_of s"
  apply (cases "accel_bpp s = 1", simp add: clip_setup_def Let_def cfg_of_def)
  apply (cases "accel_bpp s = 3", simp add: clip_setup_def Let_def cfg_of_def)
  apply (simp add: clip_setup_def Let_def cfg_of_def)
  done

lemmas clip_setup_sel = clip_setup_cfg[unfolded cfg_of_def prod.inject]

lemma bitblt_start_cfg: "cfg_of (bitblt_start s) = cfg_of s"
  apply (cases "accel_bpp s = 1", simp add: bitblt_start_def clip_setup_def Let_def cfg_of_def)
  apply (cases "accel_bpp s = 3", simp add: bitblt_start_def clip_setup_def Let_def cfg_of_def)
  apply (simp add: bitblt_start_def clip_setup_def Let_def cfg_of_def)
  done

lemmas bitblt_start_sel = bitblt_start_cfg[unfolded cfg_of_def prod.inject]

lemma scanline_start_cfg: "cfg_of (scanline_start s) = cfg_of s"
  by (simp add: scanline_start_def Let_def cfg_of_def)

lemmas scanline_start_sel = scanline_start_cfg[unfolded cfg_of_def prod.inject]

lemma bres_start_cfg: "cfg_of (bres_start s) = cfg_of s"
  apply (cases "accel_bpp s = 1", simp add: bres_start_def clip_setup_def Let_def cfg_of_def)
  apply (cases "accel_bpp s = 3", simp add: bres_start_def clip_setup_def Let_def cfg_of_def)
  apply (simp add: bres_start_def clip_setup_def Let_def cfg_of_def)
  done

lemmas bres_start_sel = bres_start_cfg[unfolded cfg_of_def prod.inject]

lemma shortvector_start_cfg: "cfg_of (shortvector_start s) = cfg_of s"
  apply (cases "accel_bpp s = 1", simp add: shortvector_start_def clip_setup_def Let_def cfg_of_def)
  apply (cases "accel_bpp s = 3", simp add: shortvector_start_def clip_setup_def Let_def cfg_of_def)
  apply (simp add: shortvector_start_def clip_setup_def Let_def cfg_of_def)
  done

lemmas shortvector_start_sel = shortvector_start_cfg[unfolded cfg_of_def prod.inject]

lemma fastline_start_cfg: "cfg_of (fastline_start s) = cfg_of s"
  apply (cases "accel_bpp s = 1", simp add: fastline_start_def clip_setup_def Let_def cfg_of_def)
  apply (cases "accel_bpp s = 3", simp add: fastline_start_def clip_setup_def Let_def cfg_of_def)
  apply (simp add: fastline_start_def clip_setup_def Let_def cfg_of_def)
  done

lemmas fastline_start_sel = fastline_start_cfg[unfolded cfg_of_def prod.inject]

lemma pitch_setup_cfg: "cfg_of (pitch_setup s) = cfg_of s"
  by (simp add: pitch_setup_def cfg_of_def)

lemmas pitch_setup_sel = pitch_setup_cfg[unfolded cfg_of_def prod.inject]

lemma prologue_reset_cfg: "cfg_of (prologue_reset c s) = cfg_of s"
  apply (cases "c = - 1", simp add: prologue_reset_def Let_def cfg_of_def)
  apply (simp add: prologue_reset_def Let_def cfg_of_def)
  done

lemmas prologue_reset_sel = prologue_reset_cfg[unfolded cfg_of_def prod.inject]

lemma blt_cpu_advance_cfg: "cfg_of (snd (blt_cpu_advance L s)) = cfg_of s"
  by (simp add: blt_cpu_advance_def Let_def cfg_of_def blt_cpu_step_x_sel blt_cpu_next_row_sel)

lemmas blt_cpu_advance_sel = blt_cpu_advance_cfg[unfolded cfg_of_def prod.inject]

lemma blt_disp_advance_cfg: "cfg_of (snd (blt_disp_advance L s)) = cfg_of s"
  by (simp add: blt_disp_advance_def Let_def cfg_of_def )

lemmas blt_disp_advance_sel = blt_disp_advance_cfg[unfolded cfg_of_def prod.inject]

lemma scanline_advance_cfg: "cfg_of (snd (scanline_advance L s)) = cfg_of s"
  by (simp add: scanline_advance_def Let_def cfg_of_def )

lemmas scanline_advance_sel = scanline_advance_cfg[unfolded cfg_of_def prod.inject]


section \<open>The colour key is not read by the engine\<close>



















section \<open>Registers that a command leaves alone\<close>

lemma WRITE_upd:
  "WRITE s a v = s\<lparr>svga_vram := svga_vram (WRITE s a v),
                     svga_changedvram := svga_changedvram (WRITE s a v)\<rparr>"
  apply (cases "accel_bpp s = 0", simp add: WRITE_def)
  apply (cases "accel_bpp s = 1", simp add: WRITE_def)
  apply (simp add: WRITE_def)
  done


lemma blt_pixel_upd:
  "blt_pixel L s x = s\<lparr>svga_vram := svga_vram (blt_pixel L s x),
                        svga_changedvram := svga_changedvram (blt_pixel L s x)\<rparr>"
  unfolding blt_pixel_def Let_def by (rule WRITE_upd)



















section \<open>The prologue, the line steps and the register writes\<close>















lemma octant_values:
  "octant_dx 0x0000 = 1 \<and> octant_dy 0x0000 = 0 \<and> octant_dx 0x2000 = 1 \<and> octant_dy 0x2000 = - 1
   \<and> octant_dx 0x4000 = 0 \<and> octant_dy 0x4000 = - 1 \<and> octant_dx 0x6000 = - 1 \<and> octant_dy 0x6000 = - 1
   \<and> octant_dx 0x8000 = - 1 \<and> octant_dy 0x8000 = 0 \<and> octant_dx 0xa000 = - 1 \<and> octant_dy 0xa000 = 1
   \<and> octant_dx 0xc000 = 0 \<and> octant_dy 0xc000 = 1 \<and> octant_dx 0xe000 = 1 \<and> octant_dy 0xe000 = 1"
  by (simp add: octant_dx_def octant_dy_def octant_step_spec_def drop_bit_eq_div unat_div)




section \<open>Claims\<close>

text \<open>
  Claim C1.  For all operands \<open>D\<close> (destination), \<open>S\<close> (source), \<open>P\<close> (pattern) the
  raster-operation unit returns 0 for code \<open>0x00\<close>, all ones for \<open>0xFF\<close>, \<open>D\<close> for
  \<open>0xAA\<close>, \<open>S\<close> for \<open>0xCC\<close>, \<open>P\<close> for \<open>0xF0\<close>, \<open>D XOR S\<close> for \<open>0x66\<close>, \<open>D AND S\<close> for
  \<open>0x88\<close>, \<open>D OR S\<close> for \<open>0xEE\<close> and \<open>D XOR P\<close> for \<open>0x5A\<close>; and in every pixel-width
  class the pixel that \<^verbatim>\<open>MIX(); WRITE()\<close> stores is that value cut to the pixel width.
\<close>

theorem rop_truth_table:
  "ROPMIX 0x00 D P S = 0 \<and> ROPMIX 0xff D P S = - 1 \<and> ROPMIX 0xaa D P S = D
   \<and> ROPMIX 0xcc D P S = S \<and> ROPMIX 0xf0 D P S = P \<and> ROPMIX 0x66 D P S = D XOR S
   \<and> ROPMIX 0x88 D P S = D AND S \<and> ROPMIX 0xee D P S = D OR S
   \<and> ROPMIX 0x5a D P S = D XOR P
   \<and> rop_pixel 0x00 s a D P S = 0
   \<and> rop_pixel 0xff s a D P S = pix_mask (accel_bpp s)
   \<and> rop_pixel 0xaa s a D P S = D AND pix_mask (accel_bpp s)
   \<and> rop_pixel 0xcc s a D P S = S AND pix_mask (accel_bpp s)
   \<and> rop_pixel 0xf0 s a D P S = P AND pix_mask (accel_bpp s)
   \<and> rop_pixel 0x66 s a D P S = (D XOR S) AND pix_mask (accel_bpp s)
   \<and> rop_pixel 0x88 s a D P S = (D AND S) AND pix_mask (accel_bpp s)
   \<and> rop_pixel 0xee s a D P S = (D OR S) AND pix_mask (accel_bpp s)
   \<and> rop_pixel 0x5a s a D P S = (D XOR P) AND pix_mask (accel_bpp s)"
  by (simp add: rop_pixel_eq ROPMIX_listed)




text \<open>
  Claim C4, as amended.  \<^verbatim>\<open>dword_remap\<close> keeps bits 0--1 and the bits from 18 up, moves
  bits 2--15 of the input to bits 4--17, and puts bits 16--17 of the input (not bits
  14--17) into bits 2--3.
\<close>

theorem dword_remap_bits:
  "bit (dword_remap a) n \<longleftrightarrow>
     (n < 2 \<and> bit a n) \<or> (2 \<le> n \<and> n < 4 \<and> bit a (n + 14))
     \<or> (4 \<le> n \<and> n < 18 \<and> bit a (n - 2)) \<or> (18 \<le> n \<and> bit a n)"
proof -
  have m1: "(0x3fff0 :: 32 word) = push_bit 4 (mask 14)" by (simp add: mask_eq_decr_exp)
  have m2: "(0xc :: 32 word) = push_bit 2 (mask 2)" by (simp add: mask_eq_decr_exp)
  have m3: "(0x3fffc :: 32 word) = push_bit 2 (mask 16)" by (simp add: mask_eq_decr_exp)
  show ?thesis
    unfolding dword_remap_def m1 m2 m3
    apply (cases "n < 2"; cases "n < 4"; cases "n < 18"; cases "n < 32")
    apply (auto simp add: bit_simps add.commute dest: bit_imp_le_length)
    done
qed

text \<open>
  The claim as worded fails at the address \<open>0x4000\<close>, whose only set bit is bit 14: the
  code moves that bit to bit 16 and leaves bits 2--3 clear, while a transform that lays
  bits 14--17 onto bits 2--3 would also set bit 2.
\<close>

theorem dword_remap_bit14_counterexample:
  "dword_remap 0x4000 = 0x10000 \<and> dword_remap_as_worded 0x4000 = 0x10004
   \<and> dword_remap 0x4000 \<noteq> dword_remap_as_worded 0x4000"
  by (simp add: dword_remap_def dword_remap_as_worded_def)










end
